theory Spec2Isabelle
  imports Main "HOL-Library.Word" "HOL-Library.Signed_Division"
begin

section \<open>Values and the environment of the client\<close>

text \<open>
  Go strings and byte slices are both sequences of bytes, and so is \<open>string\<close>.
  An \<open>error\<close> is either made by this package (\<open>errors.New\<close>, \<open>fmt.Errorf\<close> without
  a wrapping verb: an error holding just its text), or it comes out of a library
  (\<open>os\<close>, \<open>encoding/json\<close>, \<open>net/http\<close>) and is kept opaque. A nil error is \<open>None\<close>.
\<close>

type_synonym bytes = string

datatype error = errors_New string | Foreign string

text \<open>\<open>int64\<close>: Go's \<open>/\<close> truncates towards zero and wraps on overflow.\<close>

type_synonym int64 = "64 word"

definition int64_div :: "int64 \<Rightarrow> int64 \<Rightarrow> int64" where
  "int64_div a b = word_of_int (sint a sdiv sint b)"

text \<open>
  \<open>url.Values\<close> is \<open>map[string][]string\<close>; a parameter of that type may be nil,
  which is \<open>None\<close> below. \<open>Get\<close> is the first value of the key, or the empty string;
  \<open>Set\<close> replaces the values of the key by the single given one.
\<close>

type_synonym Values = "string \<rightharpoonup> string list"

definition Values_Get :: "Values \<Rightarrow> string \<Rightarrow> string" where
  "Values_Get v key = (case v key of None \<Rightarrow> [] | Some [] \<Rightarrow> [] | Some (x # _) \<Rightarrow> x)"

definition Values_Set :: "Values \<Rightarrow> string \<Rightarrow> string \<Rightarrow> Values" where
  "Values_Set v key val = v(key \<mapsto> [val])"

text \<open>
  The request handed to \<open>client.Do\<close>. Its URL is
  \<open>"https://" + ROOT + "/" + path + "?" + params.Encode()\<close>: the text before the query is
  kept as a string, the query as the parameters that \<open>Encode\<close> is applied to (a nil map
  encodes like the empty one).
\<close>

record request =
  Method :: string
  URL :: string
  Query :: Values
  ContentType :: "string option"
  ReqBody :: "bytes option"

text \<open>
  What the transport hands back: the status, the \<open>Content-Type\<close> header, and the body
  stream, which delivers \<open>Body\<close> and then ends cleanly (\<open>None\<close>) or with a read error.
\<close>

record response =
  StatusCode :: int
  Status :: string
  Header_ContentType :: string
  Body :: bytes
  BodyErr :: "error option"

text \<open>Every use of the transport and of a response body is recorded, in order.\<close>

datatype event = Do request | ReadAll | Copy | Close

text \<open>
  The world outside the process: the files by path, the error the operating system gives
  when the file at a path is opened for writing (if any), the clock as \<open>time.Now().Unix()\<close>
  reads it (seconds), the environment variables (unset reads as empty), and the trace.
  \<open>ioutil.ReadFile\<close> fails on a path that holds no file; \<open>ioutil.WriteFile\<close> either is
  refused and changes nothing, or replaces the whole content.
\<close>

record world =
  files :: "string \<rightharpoonup> bytes"
  write_error :: "string \<Rightarrow> error option"
  now_Unix :: int64
  getenv :: "string \<Rightarrow> string"
  trace :: "event list"

definition ioutil_ReadFile :: "string \<Rightarrow> world \<Rightarrow> error + bytes" where
  "ioutil_ReadFile path w =
     (case files w path of
        None \<Rightarrow> Inl (Foreign (''open '' @ path @ '': no such file or directory''))
      | Some bs \<Rightarrow> Inr bs)"

definition ioutil_WriteFile :: "string \<Rightarrow> bytes \<Rightarrow> world \<Rightarrow> error option \<times> world" where
  "ioutil_WriteFile path bs w =
     (case write_error w path of
        Some err \<Rightarrow> (Some err, w)
      | None \<Rightarrow> (None, w\<lparr>files := (files w)(path \<mapsto> bs)\<rparr>))"

text \<open>
  \<open>encoding/json\<close> works on any value by reflection. For a type \<open>'r\<close> it is the pair of
  \<open>json.Marshal\<close> (an error or the document) and \<open>json.Unmarshal\<close>, which updates the
  value it is given and may leave it partly filled when it returns an error.
\<close>

record 'r json =
  Marshal :: "'r \<Rightarrow> error + bytes"
  Unmarshal :: "bytes \<Rightarrow> 'r \<Rightarrow> error option \<times> 'r"

section \<open>util.go: the expiring cache\<close>

text \<open>The interface \<open>Expirable\<close> as its method table.\<close>

record 'r Expirable =
  GetExpireTime :: "'r \<Rightarrow> int64"

text \<open>
  The two implementations of the interface \<open>Cache\<close>. \<open>Set\<close> drops the result of
  \<open>ioutil.WriteFile\<close>; \<open>Get\<close> decodes into the value it is given and then compares
  the clock with the expiration time divided by 1000:
  \<open>time.Now().Unix() > expireTime/1000\<close>.
\<close>

datatype Cache = FileCache (Path: string) | InMemoryCache (data: bytes)

definition NewFileCache :: "string \<Rightarrow> Cache" where
  "NewFileCache path = FileCache path"

definition NewInMemoryCache :: Cache where
  "NewInMemoryCache = InMemoryCache []"

definition FileCache_Set :: "'r json \<Rightarrow> string \<Rightarrow> 'r \<Rightarrow> world \<Rightarrow> error option \<times> world" where
  "FileCache_Set J path d w =
     (case Marshal J d of
        Inr bs \<Rightarrow> (None, snd (ioutil_WriteFile path bs w))
      | Inl err \<Rightarrow> (Some err, w))"

definition FileCache_Get ::
  "'r json \<Rightarrow> 'r Expirable \<Rightarrow> string \<Rightarrow> 'r \<Rightarrow> world \<Rightarrow> error option \<times> 'r" where
  "FileCache_Get J E path d w =
     (case ioutil_ReadFile path w of
        Inl err \<Rightarrow> (Some err, d)
      | Inr bs \<Rightarrow>
          (case Unmarshal J bs d of
             (Some err, d') \<Rightarrow> (Some err, d')
           | (None, d') \<Rightarrow>
               (let expireTime = GetExpireTime E d'
                in if int64_div expireTime 1000 <s now_Unix w
                   then (Some (errors_New ''Data is already expired''), d')
                   else (None, d'))))"

definition InMemoryCache_Set :: "'r json \<Rightarrow> bytes \<Rightarrow> 'r \<Rightarrow> error option \<times> bytes" where
  "InMemoryCache_Set J buf d =
     (case Marshal J d of
        Inr bs \<Rightarrow> (None, bs)
      | Inl err \<Rightarrow> (Some err, buf))"

definition InMemoryCache_Get ::
  "'r json \<Rightarrow> 'r Expirable \<Rightarrow> bytes \<Rightarrow> 'r \<Rightarrow> world \<Rightarrow> error option \<times> 'r" where
  "InMemoryCache_Get J E buf d w =
     (case Unmarshal J buf d of
        (Some err, d') \<Rightarrow> (Some err, d')
      | (None, d') \<Rightarrow>
          (let expireTime = GetExpireTime E d'
           in if int64_div expireTime 1000 <s now_Unix w
              then (Some (errors_New ''Data is already expired''), d')
              else (None, d')))"

text \<open>A call through the interface goes to the method of the implementation held.\<close>

fun Cache_Set :: "'r json \<Rightarrow> Cache \<Rightarrow> 'r \<Rightarrow> world \<Rightarrow> error option \<times> Cache \<times> world" where
  "Cache_Set J (FileCache path) d w =
     (case FileCache_Set J path d w of (err, w') \<Rightarrow> (err, FileCache path, w'))"
| "Cache_Set J (InMemoryCache buf) d w =
     (case InMemoryCache_Set J buf d of (err, buf') \<Rightarrow> (err, InMemoryCache buf', w))"

fun Cache_Get :: "'r json \<Rightarrow> 'r Expirable \<Rightarrow> Cache \<Rightarrow> 'r \<Rightarrow> world \<Rightarrow> error option \<times> 'r" where
  "Cache_Get J E (FileCache path) d w = FileCache_Get J E path d w"
| "Cache_Get J E (InMemoryCache buf) d w = InMemoryCache_Get J E buf d w"


section \<open>goezviz.go: responses, the client and the dispatcher\<close>

definition typeJSON :: string where
  "typeJSON = ''application/json''"

text \<open>
  The interface \<open>Unmarshallable\<close> as its method table. An \<open>io.Writer\<close> is what writing
  bytes to it does to the response value it belongs to; the nil writer is \<open>None\<close>.
\<close>

record 'r Unmarshallable =
  checkError :: "'r \<Rightarrow> error option"
  getWriter :: "'r \<Rightarrow> (bytes \<Rightarrow> 'r) option"

record OAPIResponse =
  Code :: string
  Msg :: string

definition OAPIResponse_checkError :: "'a OAPIResponse_scheme \<Rightarrow> error option" where
  "OAPIResponse_checkError d =
     (if Code d \<noteq> ''200'' then Some (errors_New (Code d @ '': '' @ Msg d)) else None)"

definition OAPIResponse_getWriter ::
  "'a OAPIResponse_scheme \<Rightarrow> (bytes \<Rightarrow> 'a OAPIResponse_scheme) option" where
  "OAPIResponse_getWriter d = None"

definition OAPIResponse_Unmarshallable :: "'a OAPIResponse_scheme Unmarshallable" where
  "OAPIResponse_Unmarshallable =
     \<lparr>checkError = OAPIResponse_checkError, getWriter = OAPIResponse_getWriter\<rparr>"

record AccessToken =
  AccessToken :: string
  ExpireTime :: int64

text \<open>\<open>AccessTokenResponse\<close> embeds \<open>OAPIResponse\<close> and so has its two methods.\<close>

record AccessTokenResponse = OAPIResponse +
  Data :: AccessToken

definition AccessTokenResponse_GetExpireTime :: "AccessTokenResponse \<Rightarrow> int64" where
  "AccessTokenResponse_GetExpireTime e = ExpireTime (Data e)"

definition AccessTokenResponse_Expirable :: "AccessTokenResponse Expirable" where
  "AccessTokenResponse_Expirable = \<lparr>GetExpireTime = AccessTokenResponse_GetExpireTime\<rparr>"

text \<open>The zero value that \<open>var res AccessTokenResponse\<close> declares.\<close>

definition zero_AccessTokenResponse :: AccessTokenResponse where
  "zero_AccessTokenResponse =
     \<lparr>Code = [], Msg = [], Data = \<lparr>AccessToken.AccessToken = [], ExpireTime = 0\<rparr>\<rparr>"

text \<open>
  The client. Its \<open>HTTPClient\<close> is what \<open>client.Do\<close> answers to a request: a transport
  error (a timeout is one) or a response. The constructor is given the transport that
  stands for its \<open>http.Client\<close> with the timeout of ten seconds.
\<close>

record EzvizClient =
  AppKey :: string
  AppSecret :: string
  AccessToken :: string
  HTTPClient :: "request \<Rightarrow> error + response"
  Cache :: Cache

definition NewEzvizClient :: "(request \<Rightarrow> error + response) \<Rightarrow> string \<Rightarrow> string \<Rightarrow> EzvizClient" where
  "NewEzvizClient transport appKey appSecret =
     \<lparr>AppKey = appKey, AppSecret = appSecret, AccessToken = [],
      HTTPClient = transport,
      Cache = NewFileCache (''ezviz_'' @ appKey @ ''.auth_file'')\<rparr>"

text \<open>
  A call either returns or panics. Two panics occur below, both nil dereferences: that
  of a request which could not be built, and the one inside \<open>io.Copy\<close> when it writes
  to a nil writer. \<open>io.Copy\<close> reads the source and calls \<open>Write\<close> on the destination
  for every non-empty chunk it has read, so a nil destination is dereferenced as soon as
  the body has a byte.
\<close>

datatype 'a outcome = Returns 'a | Panics

definition io_Copy :: "(bytes \<Rightarrow> 'r) option \<Rightarrow> bytes \<Rightarrow> 'r \<Rightarrow> 'r outcome" where
  "io_Copy dst src cur =
     (case dst of
        Some wr \<Rightarrow> Returns (wr src)
      | None \<Rightarrow> if src = [] then Returns cur else Panics)"

definition emit :: "event \<Rightarrow> world \<Rightarrow> world" where
  "emit ev w = w\<lparr>trace := trace w @ [ev]\<rparr>"

text \<open>
  The pieces of the URL: \<open>ROOT\<close> is the variable \<open>oapi_server\<close> or the default host,
  \<open>url2\<close> the text up to the question mark, and \<open>Encode\<close> the parameters that
  \<open>params.Encode()\<close> writes after it, none for a nil map.
\<close>

definition ROOT :: "world \<Rightarrow> string" where
  "ROOT w = (if getenv w ''oapi_server'' = [] then ''open.ys7.com/api''
             else getenv w ''oapi_server'')"

definition url2 :: "world \<Rightarrow> string \<Rightarrow> string" where
  "url2 w path = ''https://'' @ ROOT w @ ''/'' @ path @ ''?''"

definition Encode :: "Values option \<Rightarrow> Values" where
  "Encode params = (case params of None \<Rightarrow> Map.empty | Some v \<Rightarrow> v)"

text \<open>
  The test both versions of \<open>httpRequest\<close> make on the \<open>Content-Type\<close> of the response:
  \<open>len(contentType) >= pos && contentType[0:pos] == typeJSON\<close> with \<open>pos := len(typeJSON)\<close>.
\<close>

definition isJSON :: "string \<Rightarrow> bool" where
  "isJSON contentType =
     (let pos = length typeJSON
      in pos \<le> length contentType \<and> take pos contentType = typeJSON)"

text \<open>
  \<open>httpRequest\<close> of goezviz.go, first the request it builds: a POST of the JSON encoding
  of \<open>requestData\<close> when there is one (the error of \<open>json.Marshal\<close> is dropped, leaving
  no bytes), a GET without body otherwise.

  \<open>http.NewRequest\<close> fails, and returns a nil request, when the URL does not parse. Which
  URLs parse is the library's matter and is the parameter \<open>parses\<close>; the query that
  \<open>Encode\<close> writes is always well formed, so the test is on the text before it. The
  source drops the error of \<open>http.NewRequest\<close>; the nil request is \<open>None\<close>.
\<close>

definition newRequest ::
  "(string \<Rightarrow> bool) \<Rightarrow> ('q \<Rightarrow> error + bytes) \<Rightarrow> world \<Rightarrow> string \<Rightarrow> Values option \<Rightarrow>
   'q option \<Rightarrow> request option" where
  "newRequest parses enc w path params requestData =
     (case requestData of
        Some q \<Rightarrow>
          if parses (url2 w path)
          then Some \<lparr>Method = ''POST'', URL = url2 w path, Query = Encode params,
                      ContentType = Some typeJSON,
                      ReqBody = Some (case enc q of Inr d \<Rightarrow> d | Inl _ \<Rightarrow> [])\<rparr>
          else None
      | None \<Rightarrow>
          if parses (url2 w path)
          then Some \<lparr>Method = ''GET'', URL = url2 w path, Query = Encode params,
                      ContentType = None, ReqBody = None\<rparr>
          else None)"

text \<open>
  Then the call of the transport and the handling of its answer. A nil request is
  dereferenced before the transport is reached (by \<open>request.Header.Set\<close> for a POST, inside
  \<open>client.Do\<close> for a GET), so the call panics with nothing sent. In the JSON branch the
  result of \<open>ioutil.ReadAll\<close> is bound to a new \<open>err\<close> inside the block; when the read
  fails the function leaves the block and returns the outer \<open>err\<close>, which is nil there.
  The result of \<open>json.Unmarshal\<close> and that of \<open>io.Copy\<close> are dropped. The body is closed
  by a \<open>defer\<close> registered after the status check, so it runs on every path after that
  check, a panic included.

  The lines printed under the \<open>debug\<close> variable are left out: they go to the standard
  logger and change neither a result nor the state.
\<close>

definition httpRequest ::
  "(string \<Rightarrow> bool) \<Rightarrow> ('q \<Rightarrow> error + bytes) \<Rightarrow> 'r json \<Rightarrow> 'r Unmarshallable \<Rightarrow>
   EzvizClient \<Rightarrow> string \<Rightarrow> Values option \<Rightarrow> 'q option \<Rightarrow> 'r \<Rightarrow> world \<Rightarrow>
   error option outcome \<times> 'r \<times> world" where
  "httpRequest parses enc J U c path params requestData responseData w =
     (case newRequest parses enc w path params requestData of
        None \<Rightarrow> (Panics, responseData, w)
      | Some request \<Rightarrow>
         (let w1 = emit (Do request) w
          in case HTTPClient c request of
               Inl err \<Rightarrow> (Returns (Some err), responseData, w1)
             | Inr resp \<Rightarrow>
                 if StatusCode resp \<noteq> 200
                 then (Returns (Some (errors_New (''Server error: '' @ Status resp))),
                       responseData, w1)
                 else
                   (let contentType = Header_ContentType resp
                    in if isJSON contentType
                       then
                         (let w2 = emit Close (emit ReadAll w1)
                          in case BodyErr resp of
                               None \<Rightarrow>
                                 (case Unmarshal J (Body resp) responseData of
                                    (_, r) \<Rightarrow> (Returns (checkError U r), r, w2))
                             | Some _ \<Rightarrow> (Returns None, responseData, w2))
                       else
                         (let w2 = emit Close (emit Copy w1)
                          in case io_Copy (getWriter U responseData) (Body resp) responseData of
                               Returns r \<Rightarrow> (Returns (checkError U r), r, w2)
                             | Panics \<Rightarrow> (Panics, responseData, w2)))))"

text \<open>
  \<open>httpRPC\<close>: when the client holds a token, nil parameters become an empty map, and the
  token is set under \<open>accessToken\<close> if \<open>params.Get("accessToken")\<close> is empty.
\<close>

definition httpRPC ::
  "(string \<Rightarrow> bool) \<Rightarrow> ('q \<Rightarrow> error + bytes) \<Rightarrow> 'r json \<Rightarrow> 'r Unmarshallable \<Rightarrow>
   EzvizClient \<Rightarrow> string \<Rightarrow> Values option \<Rightarrow> 'q option \<Rightarrow> 'r \<Rightarrow> world \<Rightarrow>
   error option outcome \<times> 'r \<times> world" where
  "httpRPC parses enc J U c path params requestData responseData w =
     (let params1 =
        (if EzvizClient.AccessToken c \<noteq> []
         then (let v = (case params of None \<Rightarrow> Map.empty | Some v \<Rightarrow> v)
               in if Values_Get v ''accessToken'' = []
                  then Some (Values_Set v ''accessToken'' (EzvizClient.AccessToken c))
                  else Some v)
         else params)
      in httpRequest parses enc J U c path params1 requestData responseData w)"

text \<open>
  \<open>RefreshAccessToken\<close> of goezviz.go sends the key and the secret as the JSON body, a
  \<open>map[string]string\<close>, with nil query parameters.
\<close>

definition RefreshAccessToken ::
  "(string \<Rightarrow> bool) \<Rightarrow> ((string \<rightharpoonup> string) \<Rightarrow> error + bytes) \<Rightarrow> AccessTokenResponse json \<Rightarrow>
   EzvizClient \<Rightarrow> world \<Rightarrow> error option outcome \<times> EzvizClient \<times> world" where
  "RefreshAccessToken parses enc J c w =
     (case Cache_Get J AccessTokenResponse_Expirable (Cache c) zero_AccessTokenResponse w of
        (None, res) \<Rightarrow>
          (Returns None,
           c\<lparr>EzvizClient.AccessToken := AccessToken.AccessToken (Data res)\<rparr>, w)
      | (Some _, res) \<Rightarrow>
          (let params = [''appkey'' \<mapsto> AppKey c, ''appsecret'' \<mapsto> AppSecret c]
           in case httpRPC parses enc J OAPIResponse_Unmarshallable c ''/lapp/token/get''
                     None (Some params) res w of
                (Returns None, res1, w1) \<Rightarrow>
                  (let c1 = c\<lparr>EzvizClient.AccessToken := AccessToken.AccessToken (Data res1)\<rparr>
                   in case Cache_Set J (Cache c1) res1 w1 of
                        (err, cache, w2) \<Rightarrow> (Returns err, c1\<lparr>Cache := cache\<rparr>, w2))
              | (Returns (Some err), res1, w1) \<Rightarrow> (Returns (Some err), c, w1)
              | (Panics, res1, w1) \<Rightarrow> (Panics, c, w1)))"

section \<open>util.go: the variant that sends everything in the query\<close>

text \<open>
  The second half of util.go holds another version of the same client: \<open>httpRequest\<close>
  always issues a POST without body and ignores \<open>requestData\<close>, and
  \<open>RefreshAccessToken\<close> passes the key and the secret as query parameters. The text
  after \<open>client.Do\<close>, and \<open>httpRPC\<close>, are the same as in goezviz.go. A nil request goes
  to \<open>client.Do\<close>, which dereferences it.
\<close>

definition newRequest_query ::
  "(string \<Rightarrow> bool) \<Rightarrow> world \<Rightarrow> string \<Rightarrow> Values option \<Rightarrow> request option" where
  "newRequest_query parses w path params =
     (if parses (url2 w path)
      then Some \<lparr>Method = ''POST'', URL = url2 w path, Query = Encode params,
                  ContentType = None, ReqBody = None\<rparr>
      else None)"

definition httpRequest_query ::
  "(string \<Rightarrow> bool) \<Rightarrow> 'r json \<Rightarrow> 'r Unmarshallable \<Rightarrow> EzvizClient \<Rightarrow> string \<Rightarrow>
   Values option \<Rightarrow> 'q option \<Rightarrow> 'r \<Rightarrow> world \<Rightarrow> error option outcome \<times> 'r \<times> world" where
  "httpRequest_query parses J U c path params requestData responseData w =
     (case newRequest_query parses w path params of
        None \<Rightarrow> (Panics, responseData, w)
      | Some request \<Rightarrow>
         (let w1 = emit (Do request) w
          in case HTTPClient c request of
               Inl err \<Rightarrow> (Returns (Some err), responseData, w1)
             | Inr resp \<Rightarrow>
                 if StatusCode resp \<noteq> 200
                 then (Returns (Some (errors_New (''Server error: '' @ Status resp))),
                       responseData, w1)
                 else
                   (let contentType = Header_ContentType resp
                    in if isJSON contentType
                       then
                         (let w2 = emit Close (emit ReadAll w1)
                          in case BodyErr resp of
                               None \<Rightarrow>
                                 (case Unmarshal J (Body resp) responseData of
                                    (_, r) \<Rightarrow> (Returns (checkError U r), r, w2))
                             | Some _ \<Rightarrow> (Returns None, responseData, w2))
                       else
                         (let w2 = emit Close (emit Copy w1)
                          in case io_Copy (getWriter U responseData) (Body resp) responseData of
                               Returns r \<Rightarrow> (Returns (checkError U r), r, w2)
                             | Panics \<Rightarrow> (Panics, responseData, w2)))))"

definition httpRPC_query ::
  "(string \<Rightarrow> bool) \<Rightarrow> 'r json \<Rightarrow> 'r Unmarshallable \<Rightarrow> EzvizClient \<Rightarrow> string \<Rightarrow>
   Values option \<Rightarrow> 'q option \<Rightarrow> 'r \<Rightarrow> world \<Rightarrow> error option outcome \<times> 'r \<times> world" where
  "httpRPC_query parses J U c path params requestData responseData w =
     (let params1 =
        (if EzvizClient.AccessToken c \<noteq> []
         then (let v = (case params of None \<Rightarrow> Map.empty | Some v \<Rightarrow> v)
               in if Values_Get v ''accessToken'' = []
                  then Some (Values_Set v ''accessToken'' (EzvizClient.AccessToken c))
                  else Some v)
         else params)
      in httpRequest_query parses J U c path params1 requestData responseData w)"

definition RefreshAccessToken_query ::
  "(string \<Rightarrow> bool) \<Rightarrow> AccessTokenResponse json \<Rightarrow> EzvizClient \<Rightarrow> world \<Rightarrow>
   error option outcome \<times> EzvizClient \<times> world" where
  "RefreshAccessToken_query parses J c w =
     (case Cache_Get J AccessTokenResponse_Expirable (Cache c) zero_AccessTokenResponse w of
        (None, res) \<Rightarrow>
          (Returns None,
           c\<lparr>EzvizClient.AccessToken := AccessToken.AccessToken (Data res)\<rparr>, w)
      | (Some _, res) \<Rightarrow>
          (let params = [''appKey'' \<mapsto> [AppKey c], ''appSecret'' \<mapsto> [AppSecret c]]
           in case httpRPC_query parses J OAPIResponse_Unmarshallable c ''/lapp/token/get''
                     (Some params) (None :: unit option) res w of
                (Returns None, res1, w1) \<Rightarrow>
                  (let c1 = c\<lparr>EzvizClient.AccessToken := AccessToken.AccessToken (Data res1)\<rparr>
                   in case Cache_Set J (Cache c1) res1 w1 of
                        (err, cache, w2) \<Rightarrow> (Returns err, c1\<lparr>Cache := cache\<rparr>, w2))
              | (Returns (Some err), res1, w1) \<Rightarrow> (Returns (Some err), c, w1)
              | (Panics, res1, w1) \<Rightarrow> (Panics, c, w1)))"


section \<open>Doubles for the library and the network\<close>

text \<open>
  The theorems below hold for every codec, URL parser, transport and world. To run the
  client on concrete inputs, here are a codec that knows a few documents and the values
  they hold (and reports anything else as an error, leaving the value as it was), an
  encoder for the request body, a URL parser, some canned responses, and an empty world.
\<close>

definition doc_TOK :: bytes where
  \<open>doc_TOK = ''{"code":"200","msg":"","data":{"accessToken":"TOK","expireTime":1999999999000}}''\<close>

definition res_TOK :: AccessTokenResponse where
  "res_TOK = \<lparr>Code = ''200'', Msg = [],
              Data = \<lparr>AccessToken.AccessToken = ''TOK'', ExpireTime = 1999999999000\<rparr>\<rparr>"

definition doc_5000 :: bytes where
  \<open>doc_5000 = ''{"code":"200","msg":"","data":{"accessToken":"OLD","expireTime":5000}}''\<close>

definition res_5000 :: AccessTokenResponse where
  "res_5000 = \<lparr>Code = ''200'', Msg = [],
               Data = \<lparr>AccessToken.AccessToken = ''OLD'', ExpireTime = 5000\<rparr>\<rparr>"

definition doc_400 :: bytes where
  \<open>doc_400 = ''{"code":"400","msg":"bad key"}''\<close>

definition doc_ok :: bytes where
  \<open>doc_ok = ''{"code":"200","msg":"ok"}''\<close>

text \<open>
  \<open>json.Marshal\<close> coerces a string to valid UTF-8, replacing each invalid byte with the
  replacement rune U+FFFD, which it writes as a six-character escape (a backslash and
  \<open>ufffd\<close>). A token that is the single byte FF is therefore written as that escape, and
  \<open>json.Unmarshal\<close> reads the escape back as the three bytes EF BF BD.
\<close>

definition res_raw :: AccessTokenResponse where
  "res_raw = \<lparr>Code = ''200'', Msg = [],
              Data = \<lparr>AccessToken.AccessToken = [CHR 0xFF], ExpireTime = 1999999999000\<rparr>\<rparr>"

definition doc_coerced :: bytes where
  \<open>doc_coerced = ''{"code":"200","msg":"","data":{"accessToken":"'' @ [CHR 0x5C] @
                   ''ufffd","expireTime":1999999999000}}''\<close>

definition res_coerced :: AccessTokenResponse where
  "res_coerced = \<lparr>Code = ''200'', Msg = [],
              Data = \<lparr>AccessToken.AccessToken = [CHR 0xEF, CHR 0xBF, CHR 0xBD],
                      ExpireTime = 1999999999000\<rparr>\<rparr>"

definition json_double :: "AccessTokenResponse json" where
  "json_double =
     \<lparr>Marshal = (\<lambda>r. if r = res_TOK then Inr doc_TOK
                     else if r = res_5000 then Inr doc_5000
                     else if r = res_raw then Inr doc_coerced
                     else Inl (Foreign ''json: unsupported value'')),
      Unmarshal = (\<lambda>bs r. if bs = doc_TOK then (None, res_TOK)
                     else if bs = doc_5000 then (None, res_5000)
                     else if bs = doc_coerced then (None, res_coerced)
                     else if bs = doc_400 then (None, r\<lparr>Code := ''400'', Msg := ''bad key''\<rparr>)
                     else if bs = doc_ok then (None, r\<lparr>Code := ''200'', Msg := ''ok''\<rparr>)
                     else (Some (Foreign ''invalid character''), r))\<rparr>"

text \<open>The same codec when nothing can be encoded, so that every \<open>Set\<close> fails.\<close>

definition json_decode_only :: "AccessTokenResponse json" where
  "json_decode_only =
     json_double\<lparr>Marshal := (\<lambda>r. Inl (Foreign ''json: unsupported value''))\<rparr>"

definition enc_double :: "(string \<rightharpoonup> string) \<Rightarrow> error + bytes" where
  \<open>enc_double m = Inr ''{"appkey":"K","appsecret":"S"}''\<close>

text \<open>
  A URL parser that rejects the one URL used below whose host holds a space (\<open>url.Parse\<close>
  reports an invalid character in the host name), and accepts the others.
\<close>

definition parses_double :: "string \<Rightarrow> bool" where
  "parses_double url = (url \<noteq> ''https://exa mple//lapp/token/get?'')"

definition resp_json :: "bytes \<Rightarrow> response" where
  "resp_json doc =
     \<lparr>StatusCode = 200, Status = ''200 OK'',
      Header_ContentType = ''application/json;charset=UTF-8'', Body = doc, BodyErr = None\<rparr>"

text \<open>The same response when the connection breaks after the body has been delivered.\<close>

definition resp_broken :: "bytes \<Rightarrow> response" where
  "resp_broken doc = (resp_json doc)\<lparr>BodyErr := Some (Foreign ''unexpected EOF'')\<rparr>"

definition resp_500 :: response where
  "resp_500 =
     \<lparr>StatusCode = 500, Status = ''500 Internal Server Error'',
      Header_ContentType = ''application/json'', Body = doc_TOK, BodyErr = None\<rparr>"

definition resp_jpeg :: "bytes \<Rightarrow> response" where
  "resp_jpeg img =
     \<lparr>StatusCode = 200, Status = ''200 OK'',
      Header_ContentType = ''image/jpeg'', Body = img, BodyErr = None\<rparr>"

definition answer :: "response \<Rightarrow> request \<Rightarrow> error + response" where
  "answer resp request = Inr resp"

definition unreachable :: "request \<Rightarrow> error + response" where
  "unreachable request = Inl (Foreign ''dial tcp: connection refused'')"

definition world0 :: world where
  "world0 = \<lparr>files = Map.empty, write_error = (\<lambda>path. None), now_Unix = 1700000000,
             getenv = (\<lambda>name. []), trace = []\<rparr>"

definition world_cached :: "bytes \<Rightarrow> world" where
  "world_cached doc = world0\<lparr>files := [''ezviz_K.auth_file'' \<mapsto> doc]\<rparr>"

definition world_readonly :: world where
  "world_readonly =
     world0\<lparr>write_error := (\<lambda>path. Some (Foreign (''open '' @ path @ '': permission denied'')))\<rparr>"

text \<open>The empty world with the variable \<open>oapi_server\<close> set to a host that holds a space.\<close>

definition world_badhost :: world where
  "world_badhost =
     world0\<lparr>getenv := (\<lambda>name. if name = ''oapi_server'' then ''exa mple'' else [])\<rparr>"

definition client_K :: "(request \<Rightarrow> error + response) \<Rightarrow> EzvizClient" where
  "client_K transport = NewEzvizClient transport ''K'' ''S''"

text \<open>
  A client that holds the token "T", and parameters whose \<open>accessToken\<close> entry is the
  empty string.
\<close>

definition client_T :: EzvizClient where
  "client_T = (client_K unreachable)\<lparr>EzvizClient.AccessToken := ''T''\<rparr>"

definition blank_token_params :: Values where
  "blank_token_params = [''accessToken'' \<mapsto> [[]]]"

text \<open>A response shape that streams: its writer appends to the bytes it holds.\<close>

definition Buffer_Unmarshallable :: "bytes Unmarshallable" where
  "Buffer_Unmarshallable =
     \<lparr>checkError = (\<lambda>buf. None), getWriter = (\<lambda>buf. Some (\<lambda>bs. buf @ bs))\<rparr>"

definition Buffer_json :: "bytes json" where
  "Buffer_json =
     \<lparr>Marshal = (\<lambda>buf. Inl (Foreign ''json: unsupported value'')),
      Unmarshal = (\<lambda>bs buf. (Some (Foreign ''invalid character''), buf))\<rparr>"

section \<open>Observations\<close>

text \<open>
  The requests of a trace, the values one of them carries for a query key, and whether a
  cache holds a document: the in-memory cache in its buffer, the file cache in the file
  at its path.
\<close>

fun sent :: "event list \<Rightarrow> request list" where
  "sent [] = []"
| "sent (Do request # evs) = request # sent evs"
| "sent (ev # evs) = sent evs"

definition query_of :: "string \<Rightarrow> request \<Rightarrow> string list option" where
  "query_of key request = Query request key"

fun stored :: "Cache \<Rightarrow> world \<Rightarrow> bytes \<Rightarrow> bool" where
  "stored (FileCache path) w bs = (files w path = Some bs)"
| "stored (InMemoryCache buf) w bs = (buf = bs)"

section \<open>Facts about the model\<close>

lemmas double_defs =
  json_double_def json_decode_only_def doc_TOK_def res_TOK_def doc_5000_def res_5000_def
  doc_400_def doc_ok_def res_raw_def doc_coerced_def res_coerced_def enc_double_def
  parses_double_def resp_json_def resp_broken_def resp_500_def resp_jpeg_def answer_def
  unreachable_def world0_def world_cached_def world_readonly_def world_badhost_def
  client_K_def NewEzvizClient_def NewFileCache_def Buffer_Unmarshallable_def Buffer_json_def
  zero_AccessTokenResponse_def AccessTokenResponse_Expirable_def
  AccessTokenResponse_GetExpireTime_def

lemmas cache_defs =
  FileCache_Get_def FileCache_Set_def InMemoryCache_Get_def InMemoryCache_Set_def
  ioutil_ReadFile_def ioutil_WriteFile_def

lemmas dispatch_defs =
  httpRequest_def httpRequest_query_def httpRPC_def httpRPC_query_def newRequest_def
  newRequest_query_def url2_def ROOT_def Encode_def emit_def isJSON_def typeJSON_def
  Values_Get_def Values_Set_def io_Copy_def OAPIResponse_Unmarshallable_def
  OAPIResponse_checkError_def OAPIResponse_getWriter_def

text \<open>The quotient by 1000 stays in range, so the division on \<open>int64\<close> is the one on integers.\<close>

lemma sint_int64_div_1000: "sint (int64_div a 1000) = sint a sdiv 1000"
proof -
  have r: "- (2 ^ 63) \<le> sint a" "sint a < 2 ^ 63"
    using sint_ge [of a] sint_lt [of a] by simp_all
  have "- (2 ^ 63) \<le> sint a sdiv 1000 \<and> sint a sdiv 1000 < 2 ^ 63"
    using r by (auto simp: signed_divide_int_def sgn_if)
  then show ?thesis
    by (simp add: int64_div_def signed_take_bit_int_eq_self sint_sbintrunc')
qed

lemma expired_iff: "(int64_div e 1000 <s t) = (sint e sdiv 1000 < sint t)"
  by (simp add: word_sless_alt sint_int64_div_1000)

lemma future_not_expired:
  assumes "sint t * 1000 < sint e"
  shows "\<not> (sint e sdiv 1000 < sint (t :: int64))"
  using assms by (auto simp: signed_divide_int_def sgn_if)

text \<open>
  A dispatch sends the request it has built and no other, and leaves the files alone;
  \<open>Set\<close> of either cache leaves the trace alone.
\<close>

lemma sent_append: "sent (xs @ ys) = sent xs @ sent ys"
  by (induction xs rule: sent.induct) simp_all

lemma sent_httpRequest:
  "sent (trace (snd (snd (httpRequest parses enc J U c path params q r w))))
     = sent (trace w) @
       (case newRequest parses enc w path params q of None \<Rightarrow> [] | Some request \<Rightarrow> [request])"
  by (simp add: httpRequest_def Let_def emit_def sent_append
      split: sum.splits option.splits prod.splits outcome.splits)

lemma sent_httpRequest_query:
  "sent (trace (snd (snd (httpRequest_query parses J U c path params q r w))))
     = sent (trace w) @
       (case newRequest_query parses w path params of None \<Rightarrow> [] | Some request \<Rightarrow> [request])"
  by (simp add: httpRequest_query_def Let_def emit_def sent_append
      split: sum.splits option.splits prod.splits outcome.splits)

lemma frame_httpRequest:
  "files (snd (snd (httpRequest parses enc J U c path params q r w))) = files w"
  "write_error (snd (snd (httpRequest parses enc J U c path params q r w))) = write_error w"
  by (simp_all add: httpRequest_def Let_def emit_def
      split: sum.splits option.splits prod.splits outcome.splits)

lemma frame_httpRequest_query:
  "files (snd (snd (httpRequest_query parses J U c path params q r w))) = files w"
  "write_error (snd (snd (httpRequest_query parses J U c path params q r w))) = write_error w"
  by (simp_all add: httpRequest_query_def Let_def emit_def
      split: sum.splits option.splits prod.splits outcome.splits)

lemma frame_httpRPC:
  "files (snd (snd (httpRPC parses enc J U c path params q r w))) = files w"
  "write_error (snd (snd (httpRPC parses enc J U c path params q r w))) = write_error w"
  by (simp_all add: httpRPC_def Let_def frame_httpRequest)

lemma frame_httpRPC_query:
  "files (snd (snd (httpRPC_query parses J U c path params q r w))) = files w"
  "write_error (snd (snd (httpRPC_query parses J U c path params q r w))) = write_error w"
  by (simp_all add: httpRPC_query_def Let_def frame_httpRequest_query)

lemma trace_Cache_Set: "trace (snd (snd (Cache_Set J cache d w))) = trace w"
  by (cases cache)
    (simp_all add: FileCache_Set_def InMemoryCache_Set_def ioutil_WriteFile_def
      split: sum.splits option.splits)

text \<open>What \<open>Set\<close> returns and what it stores, by what \<open>json.Marshal\<close> gives.\<close>

lemma Cache_Set_Inl:
  assumes "Marshal J d = Inl err"
  shows "Cache_Set J cache d w = (Some err, cache, w)"
  using assms by (cases cache) (simp_all add: FileCache_Set_def InMemoryCache_Set_def)

lemma Cache_Set_Inr:
  assumes "Marshal J d = Inr bs"
  shows "fst (Cache_Set J cache d w) = None"
    and "\<forall>path. cache = FileCache path \<longrightarrow> write_error w path = None \<Longrightarrow>
         stored (fst (snd (Cache_Set J cache d w))) (snd (snd (Cache_Set J cache d w))) bs"
  using assms
  by (cases cache; simp add: FileCache_Set_def InMemoryCache_Set_def ioutil_WriteFile_def)+

text \<open>The doubles at work.\<close>

lemma client_K_simps:
  "EzvizClient.AccessToken (client_K transport) = []"
  "HTTPClient (client_K transport) = transport"
  "AppKey (client_K transport) = ''K''"
  "AppSecret (client_K transport) = ''S''"
  "Cache (client_K transport) = FileCache ''ezviz_K.auth_file''"
  by (simp_all add: client_K_def NewEzvizClient_def NewFileCache_def)

lemma Get_cached_TOK:
  "Cache_Get json_double AccessTokenResponse_Expirable (Cache (client_K transport))
     zero_AccessTokenResponse (world_cached doc_TOK) = (None, res_TOK)"
  by (simp add: double_defs cache_defs expired_iff signed_divide_int_def)

lemma Get_no_file:
  assumes "files w ''ezviz_K.auth_file'' = None"
  shows "Cache_Get J AccessTokenResponse_Expirable (Cache (client_K transport))
     zero_AccessTokenResponse w
   = (Some (Foreign ''open ezviz_K.auth_file: no such file or directory''),
      zero_AccessTokenResponse)"
  using assms by (simp add: client_K_simps cache_defs)

lemma no_file:
  "files world0 ''ezviz_K.auth_file'' = None"
  "files world_readonly ''ezviz_K.auth_file'' = None"
  "files world_badhost ''ezviz_K.auth_file'' = None"
  by (simp_all add: world0_def world_readonly_def world_badhost_def)

lemma Unmarshal_doc_5000:
  "Unmarshal json_double doc_5000 zero_AccessTokenResponse = (None, res_5000)"
  by (simp add: double_defs)

lemma Unmarshal_doc_TOK:
  "Unmarshal json_double doc_TOK zero_AccessTokenResponse = (None, res_TOK)"
  by (simp add: double_defs)

lemma Unmarshal_decode_only:
  "Unmarshal json_decode_only doc_TOK zero_AccessTokenResponse = (None, res_TOK)"
  by (simp add: double_defs)

lemma Marshal_res_TOK: "Marshal json_double res_TOK = Inr doc_TOK"
  by (simp add: double_defs)

lemma res_TOK_in_future:
  "sint (now_Unix world0) * 1000 < sint (GetExpireTime AccessTokenResponse_Expirable res_TOK)"
  by (simp add: double_defs)

lemma checkError_res_TOK: "checkError OAPIResponse_Unmarshallable res_TOK = None"
  by (simp add: OAPIResponse_Unmarshallable_def OAPIResponse_checkError_def res_TOK_def)

lemma url2_world0: "url2 world0 path = ''https://open.ys7.com/api/'' @ path @ ''?''"
  by (simp add: url2_def ROOT_def world0_def)

lemma parses_world0: "parses_double (url2 world0 ''/lapp/token/get'')"
  by (simp add: url2_world0 parses_double_def)

section \<open>The token refresh\<close>

text \<open>
  C1. When \<open>Get\<close> on the client's cache succeeds, \<open>RefreshAccessToken\<close> (in either
  version) returns nil with the client's \<open>AccessToken\<close> set to the token of the record
  that \<open>Get\<close> filled, and leaves the world as it was: the trace has no new entry, so the
  transport has not been called.
\<close>

theorem RefreshAccessToken_cache_hit:
  assumes "Cache_Get J AccessTokenResponse_Expirable (Cache c) zero_AccessTokenResponse w
             = (None, res)"
  shows "RefreshAccessToken parses enc J c w
           = (Returns None, c\<lparr>EzvizClient.AccessToken := AccessToken.AccessToken (Data res)\<rparr>, w)
       \<and> RefreshAccessToken_query parses J c w
           = (Returns None, c\<lparr>EzvizClient.AccessToken := AccessToken.AccessToken (Data res)\<rparr>, w)"
  using assms by (simp add: RefreshAccessToken_def RefreshAccessToken_query_def)

theorem RefreshAccessToken_cache_hit_witness:
  "Cache_Get json_double AccessTokenResponse_Expirable (Cache (client_K unreachable))
     zero_AccessTokenResponse (world_cached doc_TOK) = (None, res_TOK)
   \<and> RefreshAccessToken parses_double enc_double json_double (client_K unreachable)
         (world_cached doc_TOK)
       = (Returns None, (client_K unreachable)\<lparr>EzvizClient.AccessToken := ''TOK''\<rparr>,
          world_cached doc_TOK)
   \<and> RefreshAccessToken_query parses_double json_double (client_K unreachable)
         (world_cached doc_TOK)
       = (Returns None, (client_K unreachable)\<lparr>EzvizClient.AccessToken := ''TOK''\<rparr>,
          world_cached doc_TOK)
   \<and> trace (world_cached doc_TOK) = []"
  using Get_cached_TOK [of unreachable]
    RefreshAccessToken_cache_hit [OF Get_cached_TOK [of unreachable],
      of parses_double enc_double]
  by (simp add: res_TOK_def world_cached_def world0_def)

text \<open>
  C3, as stated, at two concrete inputs; in both the cache file is absent, so \<open>Get\<close>
  fails. In the first the variable \<open>oapi_server\<close> holds a host with a space: no request
  can be built, and \<open>RefreshAccessToken\<close> (in either version) panics with nothing sent,
  so the authentication call is not issued once. In the second the server answers with
  the token document and the operating system refuses to write the cache file:
  \<open>RefreshAccessToken\<close> adopts the token and returns nil, and no record has been
  persisted.
\<close>

theorem RefreshAccessToken_miss_without_call_or_record:
  "fst (Cache_Get json_double AccessTokenResponse_Expirable
          (Cache (client_K (answer (resp_json doc_TOK)))) zero_AccessTokenResponse world_badhost)
     = Some (Foreign ''open ezviz_K.auth_file: no such file or directory'')
   \<and> RefreshAccessToken parses_double enc_double json_double
        (client_K (answer (resp_json doc_TOK))) world_badhost
     = (Panics, client_K (answer (resp_json doc_TOK)), world_badhost)
   \<and> RefreshAccessToken_query parses_double json_double
        (client_K (answer (resp_json doc_TOK))) world_badhost
     = (Panics, client_K (answer (resp_json doc_TOK)), world_badhost)
   \<and> sent (trace world_badhost) = []
   \<and> fst (Cache_Get json_double AccessTokenResponse_Expirable
          (Cache (client_K (answer (resp_json doc_TOK)))) zero_AccessTokenResponse world_readonly)
     = Some (Foreign ''open ezviz_K.auth_file: no such file or directory'')
   \<and> fst (RefreshAccessToken parses_double enc_double json_double
          (client_K (answer (resp_json doc_TOK))) world_readonly) = Returns None
   \<and> EzvizClient.AccessToken (fst (snd (RefreshAccessToken parses_double enc_double json_double
          (client_K (answer (resp_json doc_TOK))) world_readonly))) = ''TOK''
   \<and> files (snd (snd (RefreshAccessToken parses_double enc_double json_double
          (client_K (answer (resp_json doc_TOK))) world_readonly))) ''ezviz_K.auth_file'' = None
   \<and> fst (RefreshAccessToken_query parses_double json_double
          (client_K (answer (resp_json doc_TOK))) world_readonly) = Returns None
   \<and> files (snd (snd (RefreshAccessToken_query parses_double json_double
          (client_K (answer (resp_json doc_TOK))) world_readonly))) ''ezviz_K.auth_file'' = None"
  by (simp add: RefreshAccessToken_def RefreshAccessToken_query_def Get_no_file no_file
      client_K_simps dispatch_defs cache_defs double_defs)

text \<open>
  C3, amended. Let \<open>Get\<close> on the client's cache fail and let the URL of the
  authentication call parse. Then \<open>RefreshAccessToken\<close> (in either version) sends exactly
  one request, whatever happens afterwards: a POST to the path \<open>/lapp/token/get\<close> under
  the configured host that carries the key and the secret (in the JSON body in
  goezviz.go, in the query in util.go), together with the token the client already
  holds, if any. When that call returns nil, the client's \<open>AccessToken\<close> becomes the token
  of the response record and the record is handed to \<open>Set\<close>, whose result is the result
  of \<open>RefreshAccessToken\<close>: if the record cannot be encoded, the error of \<open>Set\<close> is
  returned with the token already adopted; if it can, nil is returned and the cache holds
  the encoding: the in-memory cache always, the file cache provided that the write of
  the file is not refused.
\<close>

theorem RefreshAccessToken_cache_miss:
  assumes "Cache_Get J AccessTokenResponse_Expirable (Cache c) zero_AccessTokenResponse w
             = (Some e, res)"
    and "parses (''https://''
           @ (if getenv w ''oapi_server'' = [] then ''open.ys7.com/api''
              else getenv w ''oapi_server'')
           @ ''//lapp/token/get?'')"
  shows "sent (trace (snd (snd (RefreshAccessToken parses enc J c w))))
           = sent (trace w) @
             [\<lparr>Method = ''POST'',
               URL = ''https://''
                 @ (if getenv w ''oapi_server'' = [] then ''open.ys7.com/api''
                    else getenv w ''oapi_server'')
                 @ ''//lapp/token/get?'',
               Query = (if EzvizClient.AccessToken c = [] then Map.empty
                        else [''accessToken'' \<mapsto> [EzvizClient.AccessToken c]]),
               ContentType = Some ''application/json'',
               ReqBody = Some (case enc [''appkey'' \<mapsto> AppKey c, ''appsecret'' \<mapsto> AppSecret c] of
                                 Inr d \<Rightarrow> d | Inl err \<Rightarrow> [])\<rparr>]
       \<and> sent (trace (snd (snd (RefreshAccessToken_query parses J c w))))
           = sent (trace w) @
             [\<lparr>Method = ''POST'',
               URL = ''https://''
                 @ (if getenv w ''oapi_server'' = [] then ''open.ys7.com/api''
                    else getenv w ''oapi_server'')
                 @ ''//lapp/token/get?'',
               Query = (if EzvizClient.AccessToken c = []
                        then [''appKey'' \<mapsto> [AppKey c], ''appSecret'' \<mapsto> [AppSecret c]]
                        else [''appKey'' \<mapsto> [AppKey c], ''appSecret'' \<mapsto> [AppSecret c],
                              ''accessToken'' \<mapsto> [EzvizClient.AccessToken c]]),
               ContentType = None,
               ReqBody = None\<rparr>]
       \<and> (httpRPC parses enc J OAPIResponse_Unmarshallable c ''/lapp/token/get'' None
             (Some [''appkey'' \<mapsto> AppKey c, ''appsecret'' \<mapsto> AppSecret c]) res w
             = (Returns None, res', w')
          \<longrightarrow> RefreshAccessToken parses enc J c w
                = (case Cache_Set J (Cache c) res' w' of
                     (err, cache, w'') \<Rightarrow>
                       (Returns err,
                        c\<lparr>EzvizClient.AccessToken := AccessToken.AccessToken (Data res'),
                          Cache := cache\<rparr>, w''))
            \<and> (\<forall>err. Marshal J res' = Inl err \<longrightarrow>
                  RefreshAccessToken parses enc J c w
                    = (Returns (Some err),
                       c\<lparr>EzvizClient.AccessToken := AccessToken.AccessToken (Data res')\<rparr>, w'))
            \<and> (\<forall>bs. Marshal J res' = Inr bs \<longrightarrow>
                  fst (RefreshAccessToken parses enc J c w) = Returns None
                \<and> EzvizClient.AccessToken (fst (snd (RefreshAccessToken parses enc J c w)))
                    = AccessToken.AccessToken (Data res')
                \<and> ((\<forall>path. Cache c = FileCache path \<longrightarrow> write_error w path = None) \<longrightarrow>
                    stored (Cache (fst (snd (RefreshAccessToken parses enc J c w))))
                      (snd (snd (RefreshAccessToken parses enc J c w))) bs)))
       \<and> (httpRPC_query parses J OAPIResponse_Unmarshallable c ''/lapp/token/get''
             (Some [''appKey'' \<mapsto> [AppKey c], ''appSecret'' \<mapsto> [AppSecret c]])
             (None :: unit option) res w
             = (Returns None, res', w')
          \<longrightarrow> RefreshAccessToken_query parses J c w
                = (case Cache_Set J (Cache c) res' w' of
                     (err, cache, w'') \<Rightarrow>
                       (Returns err,
                        c\<lparr>EzvizClient.AccessToken := AccessToken.AccessToken (Data res'),
                          Cache := cache\<rparr>, w''))
            \<and> (\<forall>err. Marshal J res' = Inl err \<longrightarrow>
                  RefreshAccessToken_query parses J c w
                    = (Returns (Some err),
                       c\<lparr>EzvizClient.AccessToken := AccessToken.AccessToken (Data res')\<rparr>, w'))
            \<and> (\<forall>bs. Marshal J res' = Inr bs \<longrightarrow>
                  fst (RefreshAccessToken_query parses J c w) = Returns None
                \<and> EzvizClient.AccessToken (fst (snd (RefreshAccessToken_query parses J c w)))
                    = AccessToken.AccessToken (Data res')
                \<and> ((\<forall>path. Cache c = FileCache path \<longrightarrow> write_error w path = None) \<longrightarrow>
                    stored (Cache (fst (snd (RefreshAccessToken_query parses J c w))))
                      (snd (snd (RefreshAccessToken_query parses J c w))) bs)))"
proof -
  let ?url = "''https://''
           @ (if getenv w ''oapi_server'' = [] then ''open.ys7.com/api''
              else getenv w ''oapi_server'')
           @ ''//lapp/token/get?''"
  let ?tok = "AccessToken.AccessToken (Data res')"
  let ?rpc = "httpRPC parses enc J OAPIResponse_Unmarshallable c ''/lapp/token/get'' None
             (Some [''appkey'' \<mapsto> AppKey c, ''appsecret'' \<mapsto> AppSecret c]) res w"
  let ?rpcq = "httpRPC_query parses J OAPIResponse_Unmarshallable c ''/lapp/token/get''
             (Some [''appKey'' \<mapsto> [AppKey c], ''appSecret'' \<mapsto> [AppSecret c]])
             (None :: unit option) res w"
  have u: "url2 w ''/lapp/token/get'' = ?url"
    by (simp add: url2_def ROOT_def)
  have p: "parses (url2 w ''/lapp/token/get'')"
    using assms(2) by (simp only: u)
  have s: "sent (trace (snd (snd ?rpc))) = sent (trace w) @
             [\<lparr>Method = ''POST'', URL = ?url,
               Query = (if EzvizClient.AccessToken c = [] then Map.empty
                        else [''accessToken'' \<mapsto> [EzvizClient.AccessToken c]]),
               ContentType = Some ''application/json'',
               ReqBody = Some (case enc [''appkey'' \<mapsto> AppKey c, ''appsecret'' \<mapsto> AppSecret c] of
                                 Inr d \<Rightarrow> d | Inl err \<Rightarrow> [])\<rparr>]"
    using p
    by (simp add: httpRPC_def sent_httpRequest newRequest_def u Encode_def Values_Get_def
        Values_Set_def typeJSON_def)
  have sq: "sent (trace (snd (snd ?rpcq))) = sent (trace w) @
             [\<lparr>Method = ''POST'', URL = ?url,
               Query = (if EzvizClient.AccessToken c = []
                        then [''appKey'' \<mapsto> [AppKey c], ''appSecret'' \<mapsto> [AppSecret c]]
                        else [''appKey'' \<mapsto> [AppKey c], ''appSecret'' \<mapsto> [AppSecret c],
                              ''accessToken'' \<mapsto> [EzvizClient.AccessToken c]]),
               ContentType = None, ReqBody = None\<rparr>]"
    using p
    by (simp add: httpRPC_query_def sent_httpRequest_query newRequest_query_def u Encode_def
        Values_Get_def Values_Set_def)
  obtain out r1 v1 where rpc: "?rpc = (out, r1, v1)"
    by (cases ?rpc) auto
  obtain outq rq vq where rpcq: "?rpcq = (outq, rq, vq)"
    by (cases ?rpcq) auto
  have a: "sent (trace (snd (snd (RefreshAccessToken parses enc J c w))))
             = sent (trace (snd (snd ?rpc)))"
    using assms(1) rpc trace_Cache_Set [of J "Cache c" r1 v1]
    by (auto simp: RefreshAccessToken_def split: outcome.splits option.splits prod.splits)
  have aq: "sent (trace (snd (snd (RefreshAccessToken_query parses J c w))))
             = sent (trace (snd (snd ?rpcq)))"
    using assms(1) rpcq trace_Cache_Set [of J "Cache c" rq vq]
    by (auto simp: RefreshAccessToken_query_def split: outcome.splits option.splits prod.splits)
  have b: "RefreshAccessToken parses enc J c w
                = (case Cache_Set J (Cache c) res' w' of
                     (err, cache, w'') \<Rightarrow>
                       (Returns err, c\<lparr>EzvizClient.AccessToken := ?tok, Cache := cache\<rparr>, w''))"
    if "?rpc = (Returns None, res', w')"
    using assms(1) that by (simp add: RefreshAccessToken_def)
  have bq: "RefreshAccessToken_query parses J c w
                = (case Cache_Set J (Cache c) res' w' of
                     (err, cache, w'') \<Rightarrow>
                       (Returns err, c\<lparr>EzvizClient.AccessToken := ?tok, Cache := cache\<rparr>, w''))"
    if "?rpcq = (Returns None, res', w')"
    using assms(1) that by (simp add: RefreshAccessToken_query_def)
  have fr: "write_error w' = write_error w" if "?rpc = (Returns None, res', w')"
    using frame_httpRPC(2) [of parses enc J OAPIResponse_Unmarshallable c "''/lapp/token/get''"
        None "Some [''appkey'' \<mapsto> AppKey c, ''appsecret'' \<mapsto> AppSecret c]" res w] that
    by simp
  have frq: "write_error w' = write_error w" if "?rpcq = (Returns None, res', w')"
    using frame_httpRPC_query(2) [of parses J OAPIResponse_Unmarshallable c "''/lapp/token/get''"
        "Some [''appKey'' \<mapsto> [AppKey c], ''appSecret'' \<mapsto> [AppSecret c]]"
        "None :: unit option" res w] that
    by simp
  have after: "(\<forall>err. Marshal J res' = Inl err \<longrightarrow>
                  R = (Returns (Some err), c\<lparr>EzvizClient.AccessToken := ?tok\<rparr>, w'))
            \<and> (\<forall>bs. Marshal J res' = Inr bs \<longrightarrow>
                  fst R = Returns None
                \<and> EzvizClient.AccessToken (fst (snd R)) = ?tok
                \<and> ((\<forall>path. Cache c = FileCache path \<longrightarrow> write_error w path = None) \<longrightarrow>
                    stored (Cache (fst (snd R))) (snd (snd R)) bs))"
    if R: "R = (case Cache_Set J (Cache c) res' w' of
                     (err, cache, w'') \<Rightarrow>
                       (Returns err, c\<lparr>EzvizClient.AccessToken := ?tok, Cache := cache\<rparr>, w''))"
      and W: "write_error w' = write_error w"
    for R
  proof (intro conjI allI impI)
    fix err assume "Marshal J res' = Inl err"
    then show "R = (Returns (Some err), c\<lparr>EzvizClient.AccessToken := ?tok\<rparr>, w')"
      by (simp add: R Cache_Set_Inl)
  next
    fix bs assume m: "Marshal J res' = Inr bs"
    obtain err cache w'' where cs: "Cache_Set J (Cache c) res' w' = (err, cache, w'')"
      by (cases "Cache_Set J (Cache c) res' w'") auto
    show "fst R = Returns None"
      using Cache_Set_Inr(1) [OF m, of "Cache c" w'] by (simp add: R cs)
    show "EzvizClient.AccessToken (fst (snd R)) = ?tok"
      by (simp add: R cs)
    assume "\<forall>path. Cache c = FileCache path \<longrightarrow> write_error w path = None"
    then have "\<forall>path. Cache c = FileCache path \<longrightarrow> write_error w' path = None"
      by (simp add: W)
    from Cache_Set_Inr(2) [OF m this]
    show "stored (Cache (fst (snd R))) (snd (snd R)) bs"
      by (simp add: R cs)
  qed
  have c: "?rpc = (Returns None, res', w')
          \<longrightarrow> RefreshAccessToken parses enc J c w
                = (case Cache_Set J (Cache c) res' w' of
                     (err, cache, w'') \<Rightarrow>
                       (Returns err, c\<lparr>EzvizClient.AccessToken := ?tok, Cache := cache\<rparr>, w''))
            \<and> (\<forall>err. Marshal J res' = Inl err \<longrightarrow>
                  RefreshAccessToken parses enc J c w
                    = (Returns (Some err), c\<lparr>EzvizClient.AccessToken := ?tok\<rparr>, w'))
            \<and> (\<forall>bs. Marshal J res' = Inr bs \<longrightarrow>
                  fst (RefreshAccessToken parses enc J c w) = Returns None
                \<and> EzvizClient.AccessToken (fst (snd (RefreshAccessToken parses enc J c w))) = ?tok
                \<and> ((\<forall>path. Cache c = FileCache path \<longrightarrow> write_error w path = None) \<longrightarrow>
                    stored (Cache (fst (snd (RefreshAccessToken parses enc J c w))))
                      (snd (snd (RefreshAccessToken parses enc J c w))) bs))"
  proof
    assume h: "?rpc = (Returns None, res', w')"
    from b [OF h] after [OF b [OF h] fr [OF h]] show
      "RefreshAccessToken parses enc J c w
                = (case Cache_Set J (Cache c) res' w' of
                     (err, cache, w'') \<Rightarrow>
                       (Returns err, c\<lparr>EzvizClient.AccessToken := ?tok, Cache := cache\<rparr>, w''))
            \<and> (\<forall>err. Marshal J res' = Inl err \<longrightarrow>
                  RefreshAccessToken parses enc J c w
                    = (Returns (Some err), c\<lparr>EzvizClient.AccessToken := ?tok\<rparr>, w'))
            \<and> (\<forall>bs. Marshal J res' = Inr bs \<longrightarrow>
                  fst (RefreshAccessToken parses enc J c w) = Returns None
                \<and> EzvizClient.AccessToken (fst (snd (RefreshAccessToken parses enc J c w))) = ?tok
                \<and> ((\<forall>path. Cache c = FileCache path \<longrightarrow> write_error w path = None) \<longrightarrow>
                    stored (Cache (fst (snd (RefreshAccessToken parses enc J c w))))
                      (snd (snd (RefreshAccessToken parses enc J c w))) bs))"
      by (rule conjI)
  qed
  have cq: "?rpcq = (Returns None, res', w')
          \<longrightarrow> RefreshAccessToken_query parses J c w
                = (case Cache_Set J (Cache c) res' w' of
                     (err, cache, w'') \<Rightarrow>
                       (Returns err, c\<lparr>EzvizClient.AccessToken := ?tok, Cache := cache\<rparr>, w''))
            \<and> (\<forall>err. Marshal J res' = Inl err \<longrightarrow>
                  RefreshAccessToken_query parses J c w
                    = (Returns (Some err), c\<lparr>EzvizClient.AccessToken := ?tok\<rparr>, w'))
            \<and> (\<forall>bs. Marshal J res' = Inr bs \<longrightarrow>
                  fst (RefreshAccessToken_query parses J c w) = Returns None
                \<and> EzvizClient.AccessToken (fst (snd (RefreshAccessToken_query parses J c w))) = ?tok
                \<and> ((\<forall>path. Cache c = FileCache path \<longrightarrow> write_error w path = None) \<longrightarrow>
                    stored (Cache (fst (snd (RefreshAccessToken_query parses J c w))))
                      (snd (snd (RefreshAccessToken_query parses J c w))) bs))"
  proof
    assume h: "?rpcq = (Returns None, res', w')"
    from bq [OF h] after [OF bq [OF h] frq [OF h]] show
      "RefreshAccessToken_query parses J c w
                = (case Cache_Set J (Cache c) res' w' of
                     (err, cache, w'') \<Rightarrow>
                       (Returns err, c\<lparr>EzvizClient.AccessToken := ?tok, Cache := cache\<rparr>, w''))
            \<and> (\<forall>err. Marshal J res' = Inl err \<longrightarrow>
                  RefreshAccessToken_query parses J c w
                    = (Returns (Some err), c\<lparr>EzvizClient.AccessToken := ?tok\<rparr>, w'))
            \<and> (\<forall>bs. Marshal J res' = Inr bs \<longrightarrow>
                  fst (RefreshAccessToken_query parses J c w) = Returns None
                \<and> EzvizClient.AccessToken (fst (snd (RefreshAccessToken_query parses J c w))) = ?tok
                \<and> ((\<forall>path. Cache c = FileCache path \<longrightarrow> write_error w path = None) \<longrightarrow>
                    stored (Cache (fst (snd (RefreshAccessToken_query parses J c w))))
                      (snd (snd (RefreshAccessToken_query parses J c w))) bs))"
      by (rule conjI)
  qed
  have s': "sent (trace (snd (snd (RefreshAccessToken parses enc J c w)))) = sent (trace w) @
             [\<lparr>Method = ''POST'', URL = ?url,
               Query = (if EzvizClient.AccessToken c = [] then Map.empty
                        else [''accessToken'' \<mapsto> [EzvizClient.AccessToken c]]),
               ContentType = Some ''application/json'',
               ReqBody = Some (case enc [''appkey'' \<mapsto> AppKey c, ''appsecret'' \<mapsto> AppSecret c] of
                                 Inr d \<Rightarrow> d | Inl err \<Rightarrow> [])\<rparr>]"
    by (simp only: a s)
  have sq': "sent (trace (snd (snd (RefreshAccessToken_query parses J c w)))) = sent (trace w) @
             [\<lparr>Method = ''POST'', URL = ?url,
               Query = (if EzvizClient.AccessToken c = []
                        then [''appKey'' \<mapsto> [AppKey c], ''appSecret'' \<mapsto> [AppSecret c]]
                        else [''appKey'' \<mapsto> [AppKey c], ''appSecret'' \<mapsto> [AppSecret c],
                              ''accessToken'' \<mapsto> [EzvizClient.AccessToken c]]),
               ContentType = None, ReqBody = None\<rparr>]"
    by (simp only: aq sq)
  from s' sq' c cq show ?thesis
    by (intro conjI)
qed


lemma httpRPC_answer_json:
  assumes "EzvizClient.AccessToken c = []"
    and "HTTPClient c = answer (resp_json doc)"
    and "Unmarshal J doc r = (e, r')"
  shows "newRequest parses enc w path params q = Some request \<Longrightarrow>
         httpRPC parses enc J U c path params q r w
           = (Returns (checkError U r'), r',
              w\<lparr>trace := trace w @ [Do request, ReadAll, Close]\<rparr>)"
    and "newRequest_query parses w path params = Some request \<Longrightarrow>
         httpRPC_query parses J U c path params q' r w
           = (Returns (checkError U r'), r',
              w\<lparr>trace := trace w @ [Do request, ReadAll, Close]\<rparr>)"
  using assms
  by (simp_all add: httpRPC_def httpRPC_query_def httpRequest_def httpRequest_query_def
      answer_def resp_json_def emit_def isJSON_def typeJSON_def)


text \<open>The two authentication requests of the client with key K and secret S.\<close>

lemma auth_request:
  \<open>newRequest parses_double enc_double world0 ''/lapp/token/get'' None
     (Some [''appkey'' \<mapsto> ''K'', ''appsecret'' \<mapsto> ''S''])
   = Some \<lparr>Method = ''POST'', URL = ''https://open.ys7.com/api//lapp/token/get?'',
            Query = Map.empty, ContentType = Some ''application/json'',
            ReqBody = Some ''{"appkey":"K","appsecret":"S"}''\<rparr>\<close>
  \<open>newRequest_query parses_double world0 ''/lapp/token/get''
     (Some [''appKey'' \<mapsto> [''K''], ''appSecret'' \<mapsto> [''S'']])
   = Some \<lparr>Method = ''POST'', URL = ''https://open.ys7.com/api//lapp/token/get?'',
            Query = [''appKey'' \<mapsto> [''K''], ''appSecret'' \<mapsto> [''S'']],
            ContentType = None, ReqBody = None\<rparr>\<close>
  by (simp_all add: newRequest_def newRequest_query_def url2_world0 parses_double_def
      Encode_def typeJSON_def enc_double_def)

theorem RefreshAccessToken_cache_miss_witness:
  \<open>sent (trace (snd (snd (RefreshAccessToken parses_double enc_double json_double
          (client_K (answer (resp_json doc_TOK))) world0))))
     = [\<lparr>Method = ''POST'', URL = ''https://open.ys7.com/api//lapp/token/get?'',
         Query = Map.empty, ContentType = Some ''application/json'',
         ReqBody = Some ''{"appkey":"K","appsecret":"S"}''\<rparr>]
   \<and> fst (RefreshAccessToken parses_double enc_double json_double
          (client_K (answer (resp_json doc_TOK))) world0) = Returns None
   \<and> EzvizClient.AccessToken (fst (snd (RefreshAccessToken parses_double enc_double json_double
          (client_K (answer (resp_json doc_TOK))) world0))) = ''TOK''
   \<and> files (snd (snd (RefreshAccessToken parses_double enc_double json_double
          (client_K (answer (resp_json doc_TOK))) world0))) ''ezviz_K.auth_file'' = Some doc_TOK
   \<and> sent (trace (snd (snd (RefreshAccessToken_query parses_double json_decode_only
          (client_K (answer (resp_json doc_TOK))) world0))))
     = [\<lparr>Method = ''POST'', URL = ''https://open.ys7.com/api//lapp/token/get?'',
         Query = [''appKey'' \<mapsto> [''K''], ''appSecret'' \<mapsto> [''S'']],
         ContentType = None, ReqBody = None\<rparr>]
   \<and> fst (RefreshAccessToken_query parses_double json_decode_only
          (client_K (answer (resp_json doc_TOK))) world0)
       = Returns (Some (Foreign ''json: unsupported value''))
   \<and> EzvizClient.AccessToken (fst (snd (RefreshAccessToken_query parses_double json_decode_only
          (client_K (answer (resp_json doc_TOK))) world0))) = ''TOK''\<close>
proof -
  let ?c = "client_K (answer (resp_json doc_TOK))"
  let ?rq = \<open>\<lparr>Method = ''POST'', URL = ''https://open.ys7.com/api//lapp/token/get?'',
            Query = Map.empty, ContentType = Some ''application/json'',
            ReqBody = Some ''{"appkey":"K","appsecret":"S"}''\<rparr>\<close>
  let ?rqq = "\<lparr>Method = ''POST'', URL = ''https://open.ys7.com/api//lapp/token/get?'',
            Query = [''appKey'' \<mapsto> [''K''], ''appSecret'' \<mapsto> [''S'']],
            ContentType = None, ReqBody = None\<rparr>"
  let ?w = "world0\<lparr>trace := trace world0 @ [Do ?rq, ReadAll, Close]\<rparr>"
  let ?wq = "world0\<lparr>trace := trace world0 @ [Do ?rqq, ReadAll, Close]\<rparr>"
  have p: "parses_double (''https://''
           @ (if getenv world0 ''oapi_server'' = [] then ''open.ys7.com/api''
              else getenv world0 ''oapi_server'')
           @ ''//lapp/token/get?'')"
    by (simp add: world0_def parses_double_def)
  have rpc: "httpRPC parses_double enc_double json_double OAPIResponse_Unmarshallable ?c
               ''/lapp/token/get'' None (Some [''appkey'' \<mapsto> AppKey ?c, ''appsecret'' \<mapsto> AppSecret ?c])
               zero_AccessTokenResponse world0 = (Returns None, res_TOK, ?w)"
    using httpRPC_answer_json(1) [OF client_K_simps(1) client_K_simps(2) Unmarshal_doc_TOK
        auth_request(1), where U = OAPIResponse_Unmarshallable]
    by (simp add: client_K_simps checkError_res_TOK)
  have rpcq: "httpRPC_query parses_double json_decode_only OAPIResponse_Unmarshallable ?c
               ''/lapp/token/get''
               (Some [''appKey'' \<mapsto> [AppKey ?c], ''appSecret'' \<mapsto> [AppSecret ?c]])
               (None :: unit option) zero_AccessTokenResponse world0 = (Returns None, res_TOK, ?wq)"
    using httpRPC_answer_json(2) [OF client_K_simps(1) client_K_simps(2) Unmarshal_decode_only
        auth_request(2), where U = OAPIResponse_Unmarshallable and q' = "None :: unit option"]
    by (simp add: client_K_simps checkError_res_TOK)
  have mq: "Marshal json_decode_only res_TOK = Inl (Foreign ''json: unsupported value'')"
    by (simp add: json_decode_only_def)
  have wr: "\<forall>path. Cache ?c = FileCache path \<longrightarrow> write_error world0 path = None"
    by (simp add: world0_def)
  have k: "getenv world0 ''oapi_server'' = []" "trace world0 = []"
    by (simp_all add: world0_def)
  have tk: "AccessToken.AccessToken (Data res_TOK) = ''TOK''"
    by (simp add: res_TOK_def)
  note t = RefreshAccessToken_cache_miss [where parses = parses_double and J = json_double
      and c = ?c and w = world0 and enc = enc_double and res' = res_TOK and w' = ?w,
      OF Get_no_file [OF no_file(1)] p]
  note tq = RefreshAccessToken_cache_miss [where parses = parses_double
      and J = json_decode_only and c = ?c and w = world0 and enc = enc_double
      and res' = res_TOK and w' = ?wq, OF Get_no_file [OF no_file(1)] p]
  note after = t [THEN conjunct2, THEN conjunct2, THEN conjunct1, THEN mp, OF rpc]
  note enc_ok = after [THEN conjunct2, THEN conjunct2, THEN spec, THEN mp, OF Marshal_res_TOK]
  note afterq = tq [THEN conjunct2, THEN conjunct2, THEN conjunct2, THEN mp, OF rpcq]
  note enc_no = afterq [THEN conjunct2, THEN conjunct1, THEN spec, THEN mp, OF mq]
  from t [THEN conjunct1]
  have a: "sent (trace (snd (snd (RefreshAccessToken parses_double enc_double json_double ?c world0))))
             = [?rq]"
    by (simp add: client_K_simps k enc_double_def)
  from enc_ok [THEN conjunct1]
  have b: "fst (RefreshAccessToken parses_double enc_double json_double ?c world0) = Returns None" .
  from enc_ok [THEN conjunct2, THEN conjunct1]
  have c: "EzvizClient.AccessToken (fst (snd (RefreshAccessToken parses_double enc_double
              json_double ?c world0))) = ''TOK''"
    by (simp add: tk)
  from enc_ok [THEN conjunct2, THEN conjunct2, THEN mp, OF wr]
  have d: "stored (Cache (fst (snd (RefreshAccessToken parses_double enc_double json_double ?c
              world0)))) (snd (snd (RefreshAccessToken parses_double enc_double json_double ?c
              world0))) doc_TOK" .
  have e: "Cache (fst (snd (RefreshAccessToken parses_double enc_double json_double ?c
              world0))) = FileCache ''ezviz_K.auth_file''"
    by (simp add: after [THEN conjunct1] client_K_simps FileCache_Set_def Marshal_res_TOK)
  from tq [THEN conjunct2, THEN conjunct1]
  have aq: "sent (trace (snd (snd (RefreshAccessToken_query parses_double json_decode_only ?c
              world0)))) = [?rqq]"
    by (simp add: client_K_simps k)
  from enc_no
  have bq: "RefreshAccessToken_query parses_double json_decode_only ?c world0
              = (Returns (Some (Foreign ''json: unsupported value'')),
                 ?c\<lparr>EzvizClient.AccessToken := ''TOK''\<rparr>, ?wq)"
    by (simp add: tk)
  from d e have f: "files (snd (snd (RefreshAccessToken parses_double enc_double json_double ?c
              world0))) ''ezviz_K.auth_file'' = Some doc_TOK"
    by simp
  from a b c f aq bq show ?thesis
    by simp
qed



section \<open>The expiring cache\<close>

text \<open>
  C2, as stated, at a concrete input. The stored record expires at 5000 ms and the clock
  reads 5 s, so the clock is at the expiration time divided by 1000; the record decodes,
  and \<open>Get\<close> of either cache returns nil.
\<close>

theorem Get_succeeds_in_expiry_second:
  "sint (ExpireTime (Data res_5000)) sdiv 1000 \<le> sint (now_Unix (world0\<lparr>now_Unix := 5\<rparr>))
   \<and> Unmarshal json_double doc_5000 zero_AccessTokenResponse = (None, res_5000)
   \<and> InMemoryCache_Get json_double AccessTokenResponse_Expirable doc_5000
        zero_AccessTokenResponse (world0\<lparr>now_Unix := 5\<rparr>) = (None, res_5000)
   \<and> FileCache_Get json_double AccessTokenResponse_Expirable ''ezviz_K.auth_file''
        zero_AccessTokenResponse ((world_cached doc_5000)\<lparr>now_Unix := 5\<rparr>) = (None, res_5000)"
  by (simp add: cache_defs expired_iff double_defs signed_divide_int_def)

text \<open>
  C2, amended. For a stored record that decodes without error, \<open>Get\<close> of either cache
  returns the error "Data is already expired" exactly when the clock (in seconds) is
  strictly greater than the expiration time (in milliseconds) divided by 1000, the
  quotient truncated towards zero; otherwise it returns nil. In both cases the value holds
  the decoded record.
\<close>

theorem Get_expired_iff_past_second:
  assumes "Unmarshal J bs d = (None, d')"
  shows "InMemoryCache_Get J E bs d w =
           (if sint (GetExpireTime E d') sdiv 1000 < sint (now_Unix w)
            then Some (errors_New ''Data is already expired'') else None, d')
       \<and> (files w path = Some bs \<longrightarrow>
          FileCache_Get J E path d w =
           (if sint (GetExpireTime E d') sdiv 1000 < sint (now_Unix w)
            then Some (errors_New ''Data is already expired'') else None, d'))"
  using assms by (simp add: cache_defs expired_iff)

theorem Get_expired_iff_past_second_witness:
  "Unmarshal json_double doc_5000 zero_AccessTokenResponse = (None, res_5000)
   \<and> InMemoryCache_Get json_double AccessTokenResponse_Expirable doc_5000
        zero_AccessTokenResponse (world0\<lparr>now_Unix := 6\<rparr>)
      = (Some (errors_New ''Data is already expired''), res_5000)
   \<and> files ((world_cached doc_5000)\<lparr>now_Unix := 6\<rparr>) ''ezviz_K.auth_file'' = Some doc_5000
   \<and> FileCache_Get json_double AccessTokenResponse_Expirable ''ezviz_K.auth_file''
        zero_AccessTokenResponse ((world_cached doc_5000)\<lparr>now_Unix := 6\<rparr>)
      = (Some (errors_New ''Data is already expired''), res_5000)"
proof -
  have e: "sint (GetExpireTime AccessTokenResponse_Expirable res_5000) sdiv 1000 = 5"
    by (simp add: double_defs signed_divide_int_def)
  have f: "files ((world_cached doc_5000)\<lparr>now_Unix := 6\<rparr>) ''ezviz_K.auth_file'' = Some doc_5000"
    by (simp add: world_cached_def)
  show ?thesis
    using Unmarshal_doc_5000 f
      Get_expired_iff_past_second [OF Unmarshal_doc_5000,
        where E = AccessTokenResponse_Expirable and w = "world0\<lparr>now_Unix := 6\<rparr>"]
      Get_expired_iff_past_second [OF Unmarshal_doc_5000,
        where E = AccessTokenResponse_Expirable
        and w = "(world_cached doc_5000)\<lparr>now_Unix := 6\<rparr>" and path = "''ezviz_K.auth_file''"]
    by (simp add: e)
qed

text \<open>
  C4, as stated, at two concrete inputs; both records encode without error and expire in
  the future. The first record holds a token that is not valid UTF-8: \<open>Set\<close> and \<open>Get\<close> of
  the in-memory cache both return nil, and the record that \<open>Get\<close> yields holds the
  replacement rune in place of the token, so it is not the record that was set. The
  second record decodes back to itself, and the operating system refuses to open the
  file for writing: \<open>Set\<close> of the file cache returns nil all the same, with nothing
  stored, and the \<open>Get\<close> that follows fails.
\<close>

theorem Set_then_Get_loses_the_record:
  "Marshal json_double res_raw = Inr doc_coerced
   \<and> sint (now_Unix world0) * 1000
        < sint (GetExpireTime AccessTokenResponse_Expirable res_raw)
   \<and> Cache_Set json_double NewInMemoryCache res_raw world0
        = (None, InMemoryCache doc_coerced, world0)
   \<and> Cache_Get json_double AccessTokenResponse_Expirable (InMemoryCache doc_coerced)
        zero_AccessTokenResponse world0
        = (None, res_coerced)
   \<and> AccessToken.AccessToken (Data res_raw) = [CHR 0xFF]
   \<and> AccessToken.AccessToken (Data res_coerced) = [CHR 0xEF, CHR 0xBF, CHR 0xBD]
   \<and> Marshal json_double res_TOK = Inr doc_TOK
   \<and> Unmarshal json_double doc_TOK zero_AccessTokenResponse = (None, res_TOK)
   \<and> sint (now_Unix world_readonly) * 1000
        < sint (GetExpireTime AccessTokenResponse_Expirable res_TOK)
   \<and> Cache_Set json_double (FileCache ''ezviz_K.auth_file'') res_TOK world_readonly
        = (None, FileCache ''ezviz_K.auth_file'', world_readonly)
   \<and> Cache_Get json_double AccessTokenResponse_Expirable (FileCache ''ezviz_K.auth_file'')
        zero_AccessTokenResponse world_readonly
        = (Some (Foreign ''open ezviz_K.auth_file: no such file or directory''),
           zero_AccessTokenResponse)"
  by (simp add: cache_defs double_defs NewInMemoryCache_def expired_iff signed_divide_int_def)

text \<open>
  C4, amended. Let the record encode to a document that decodes, into the zero value,
  back to the record, and let its expiration time (milliseconds) be later than the clock
  (seconds) at the time of \<open>Get\<close>. Then \<open>Set\<close> returns nil and the \<open>Get\<close> that follows
  returns nil with the value equal to the record: for the in-memory cache always, for the
  file cache provided that the write of the file is not refused.
\<close>

theorem Set_then_Get_roundtrip:
  assumes "Marshal J R = Inr bs"
    and "Unmarshal J bs z = (None, R)"
    and "sint t * 1000 < sint (GetExpireTime E R)"
    and "\<forall>path. cache = FileCache path \<longrightarrow> write_error w path = None"
  shows "case Cache_Set J cache R w of
           (err, cache', w') \<Rightarrow>
             err = None \<and> Cache_Get J E cache' z (w'\<lparr>now_Unix := t\<rparr>) = (None, R)"
proof (cases cache)
  case (FileCache path)
  with assms show ?thesis
    by (simp add: cache_defs expired_iff future_not_expired)
next
  case (InMemoryCache buf)
  with assms show ?thesis
    by (simp add: cache_defs expired_iff future_not_expired)
qed

theorem Set_then_Get_roundtrip_witness:
  "Marshal json_double res_TOK = Inr doc_TOK
   \<and> Unmarshal json_double doc_TOK zero_AccessTokenResponse = (None, res_TOK)
   \<and> sint (now_Unix world0) * 1000 < sint (GetExpireTime AccessTokenResponse_Expirable res_TOK)
   \<and> write_error world0 ''ezviz_K.auth_file'' = None
   \<and> Cache_Set json_double (FileCache ''ezviz_K.auth_file'') res_TOK world0
        = (None, FileCache ''ezviz_K.auth_file'', world_cached doc_TOK)
   \<and> Cache_Get json_double AccessTokenResponse_Expirable (FileCache ''ezviz_K.auth_file'')
        zero_AccessTokenResponse (world_cached doc_TOK) = (None, res_TOK)
   \<and> Cache_Set json_double NewInMemoryCache res_TOK world0 = (None, InMemoryCache doc_TOK, world0)
   \<and> Cache_Get json_double AccessTokenResponse_Expirable (InMemoryCache doc_TOK)
        zero_AccessTokenResponse world0 = (None, res_TOK)"
proof -
  have f: "\<forall>path. FileCache ''ezviz_K.auth_file'' = FileCache path
             \<longrightarrow> write_error world0 path = None"
    by (simp add: world0_def)
  have m: "\<forall>path. NewInMemoryCache = FileCache path \<longrightarrow> write_error world0 path = None"
    by (simp add: NewInMemoryCache_def)
  have sf: "Cache_Set json_double (FileCache ''ezviz_K.auth_file'') res_TOK world0
        = (None, FileCache ''ezviz_K.auth_file'', world_cached doc_TOK)"
    by (simp add: cache_defs Marshal_res_TOK world_cached_def world0_def)
  have sm: "Cache_Set json_double NewInMemoryCache res_TOK world0
        = (None, InMemoryCache doc_TOK, world0)"
    by (simp add: cache_defs Marshal_res_TOK NewInMemoryCache_def)
  have n: "(world_cached doc_TOK)\<lparr>now_Unix := now_Unix world0\<rparr> = world_cached doc_TOK"
    "world0\<lparr>now_Unix := now_Unix world0\<rparr> = world0"
    by (simp_all add: world_cached_def world0_def)
  have gf: "Cache_Get json_double AccessTokenResponse_Expirable (FileCache ''ezviz_K.auth_file'')
        zero_AccessTokenResponse (world_cached doc_TOK) = (None, res_TOK)"
    using Set_then_Get_roundtrip [OF Marshal_res_TOK Unmarshal_doc_TOK res_TOK_in_future f]
    by (simp only: sf n prod.case)
  have gm: "Cache_Get json_double AccessTokenResponse_Expirable (InMemoryCache doc_TOK)
        zero_AccessTokenResponse world0 = (None, res_TOK)"
    using Set_then_Get_roundtrip [OF Marshal_res_TOK Unmarshal_doc_TOK res_TOK_in_future m]
    by (simp only: sm n prod.case)
  have wr: "write_error world0 ''ezviz_K.auth_file'' = None"
    by (simp add: world0_def)
  from Marshal_res_TOK Unmarshal_doc_TOK res_TOK_in_future wr sf gf sm gm
  show ?thesis by blast
qed

section \<open>The dispatcher\<close>

lemma resp_json_simps:
  "StatusCode (resp_json doc) = 200"
  "isJSON (Header_ContentType (resp_json doc))"
  "BodyErr (resp_json doc) = None"
  "Body (resp_json doc) = doc"
  by (simp_all add: resp_json_def isJSON_def typeJSON_def)

lemma resp_broken_simps:
  "StatusCode (resp_broken doc) = 200"
  "isJSON (Header_ContentType (resp_broken doc))"
  "BodyErr (resp_broken doc) = Some (Foreign ''unexpected EOF'')"
  "Body (resp_broken doc) = doc"
  by (simp_all add: resp_broken_def resp_json_def isJSON_def typeJSON_def)

lemma resp_jpeg_simps:
  "StatusCode (resp_jpeg img) = 200"
  "\<not> isJSON (Header_ContentType (resp_jpeg img))"
  "Body (resp_jpeg img) = img"
  by (simp_all add: resp_jpeg_def isJSON_def typeJSON_def)

lemma HTTPClient_answer: "HTTPClient (client_K (answer resp)) request = Inr resp"
  by (simp add: client_K_simps answer_def)

lemma some_request:
  "newRequest parses_double enc_double world0 ''/lapp/token/get'' None
     (Some [''appkey'' \<mapsto> ''K'', ''appsecret'' \<mapsto> ''S''])
   = Some (the (newRequest parses_double enc_double world0 ''/lapp/token/get'' None
     (Some [''appkey'' \<mapsto> ''K'', ''appsecret'' \<mapsto> ''S''])))"
  "newRequest_query parses_double world0 ''/lapp/token/get'' None
   = Some (the (newRequest_query parses_double world0 ''/lapp/token/get'' None))"
  by (simp_all add: newRequest_def newRequest_query_def parses_world0)

text \<open>When reading the body fails, nothing is decoded and the outer, nil \<open>err\<close> is returned.\<close>

lemma httpRequest_read_error:
  assumes "HTTPClient c request = Inr resp"
    and "StatusCode resp = 200"
    and "isJSON (Header_ContentType resp)"
    and "BodyErr resp = Some e"
  shows "newRequest parses enc w path params q = Some request \<Longrightarrow>
         httpRequest parses enc J U c path params q r w
           = (Returns None, r, w\<lparr>trace := trace w @ [Do request, ReadAll, Close]\<rparr>)"
    and "newRequest_query parses w path params = Some request \<Longrightarrow>
         httpRequest_query parses J U c path params q' r w
           = (Returns None, r, w\<lparr>trace := trace w @ [Do request, ReadAll, Close]\<rparr>)"
  using assms by (simp_all add: httpRequest_def httpRequest_query_def emit_def)

text \<open>
  C5, as stated, at a concrete input. The transport answers with status 200, a
  \<open>Content-Type\<close> that begins with \<open>application/json\<close> and the body with code "400", and the
  connection breaks once the body has been delivered, so that reading it returns an
  error. \<open>httpRequest\<close> (in either version) returns nil, not the error "400: bad key".
\<close>

theorem httpRequest_read_error_hides_domain_error:
  "StatusCode (resp_broken doc_400) = 200
   \<and> isJSON (Header_ContentType (resp_broken doc_400))
   \<and> Code (snd (Unmarshal json_double (Body (resp_broken doc_400)) zero_AccessTokenResponse))
       = ''400''
   \<and> fst (httpRequest parses_double enc_double json_double OAPIResponse_Unmarshallable
          (client_K (answer (resp_broken doc_400))) ''/lapp/token/get'' None
          (Some [''appkey'' \<mapsto> ''K'', ''appsecret'' \<mapsto> ''S'']) zero_AccessTokenResponse world0)
     = Returns None
   \<and> fst (httpRequest_query parses_double json_double OAPIResponse_Unmarshallable
          (client_K (answer (resp_broken doc_400))) ''/lapp/token/get'' None
          (None :: unit option) zero_AccessTokenResponse world0)
     = Returns None"
proof -
  have u: "Code (snd (Unmarshal json_double (Body (resp_broken doc_400))
             zero_AccessTokenResponse)) = ''400''"
    by (simp add: resp_broken_simps json_double_def doc_TOK_def doc_5000_def doc_coerced_def
        doc_400_def)
  show ?thesis
    using u resp_broken_simps(1,2) [of doc_400]
      httpRequest_read_error(1) [OF HTTPClient_answer resp_broken_simps(1-3) some_request(1),
        where J = json_double and U = OAPIResponse_Unmarshallable
        and r = zero_AccessTokenResponse and doc1 = doc_400]
      httpRequest_read_error(2) [OF HTTPClient_answer resp_broken_simps(1-3) some_request(2),
        where J = json_double and U = OAPIResponse_Unmarshallable
        and r = zero_AccessTokenResponse and doc1 = doc_400 and q' = "None :: unit option"]
    by simp
qed

text \<open>
  C5, amended. Let the transport answer with status 200 and a \<open>Content-Type\<close> that begins
  with \<open>application/json\<close>, and let the body be read to its end without error. Then
  \<open>httpRequest\<close> (in either version), called with a response shape that has the methods
  of \<open>OAPIResponse\<close>, returns what the code of the decoded value says: nil when it is
  "200", otherwise the error whose text is the code, a colon and a space, and the
  message.
\<close>

theorem httpRequest_domain_error:
  assumes "StatusCode resp = 200"
    and "isJSON (Header_ContentType resp)"
    and "BodyErr resp = None"
    and "Unmarshal J (Body resp) r = (e, r')"
  shows "(newRequest parses enc w path params q = Some request
          \<and> HTTPClient c request = Inr resp \<longrightarrow>
            fst (httpRequest parses enc J OAPIResponse_Unmarshallable c path params q r w)
              = Returns (if Code r' = ''200'' then None
                         else Some (errors_New (Code r' @ '': '' @ Msg r'))))
       \<and> (newRequest_query parses w path params = Some request
          \<and> HTTPClient c request = Inr resp \<longrightarrow>
            fst (httpRequest_query parses J OAPIResponse_Unmarshallable c path params q' r w)
              = Returns (if Code r' = ''200'' then None
                         else Some (errors_New (Code r' @ '': '' @ Msg r'))))"
  using assms
  by (simp add: httpRequest_def httpRequest_query_def Let_def
      OAPIResponse_Unmarshallable_def OAPIResponse_checkError_def)

theorem httpRequest_domain_error_witness:
  "fst (httpRequest parses_double enc_double json_double OAPIResponse_Unmarshallable
          (client_K (answer (resp_json doc_400))) ''/lapp/token/get'' None
          (Some [''appkey'' \<mapsto> ''K'', ''appsecret'' \<mapsto> ''S'']) zero_AccessTokenResponse world0)
     = Returns (Some (errors_New ''400: bad key''))
   \<and> fst (httpRequest_query parses_double json_double OAPIResponse_Unmarshallable
          (client_K (answer (resp_json doc_400))) ''/lapp/token/get'' None
          (None :: unit option) zero_AccessTokenResponse world0)
     = Returns (Some (errors_New ''400: bad key''))
   \<and> fst (httpRequest parses_double enc_double json_double OAPIResponse_Unmarshallable
          (client_K (answer (resp_json doc_ok))) ''/lapp/token/get'' None
          (Some [''appkey'' \<mapsto> ''K'', ''appsecret'' \<mapsto> ''S'']) zero_AccessTokenResponse world0)
     = Returns None
   \<and> fst (httpRequest_query parses_double json_double OAPIResponse_Unmarshallable
          (client_K (answer (resp_json doc_ok))) ''/lapp/token/get'' None
          (None :: unit option) zero_AccessTokenResponse world0)
     = Returns None"
proof -
  have u400: "Unmarshal json_double (Body (resp_json doc_400)) zero_AccessTokenResponse
                = (None, zero_AccessTokenResponse\<lparr>Code := ''400'', Msg := ''bad key''\<rparr>)"
    by (simp add: double_defs)
  have uok: "Unmarshal json_double (Body (resp_json doc_ok)) zero_AccessTokenResponse
                = (None, zero_AccessTokenResponse\<lparr>Code := ''200'', Msg := ''ok''\<rparr>)"
    by (simp add: double_defs)
  note t400 = httpRequest_domain_error [OF resp_json_simps(1-3) u400,
        where c = "client_K (answer (resp_json doc_400))" and q' = "None :: unit option"]
  note tok = httpRequest_domain_error [OF resp_json_simps(1-3) uok,
        where c = "client_K (answer (resp_json doc_ok))" and q' = "None :: unit option"]
  show ?thesis
    using t400 [THEN conjunct1, THEN mp, OF conjI, OF some_request(1) HTTPClient_answer]
      t400 [THEN conjunct2, THEN mp, OF conjI, OF some_request(2) HTTPClient_answer]
      tok [THEN conjunct1, THEN mp, OF conjI, OF some_request(1) HTTPClient_answer]
      tok [THEN conjunct2, THEN mp, OF conjI, OF some_request(2) HTTPClient_answer]
    by simp
qed

text \<open>
  C6. When the transport answers with a status other than 200, \<open>httpRequest\<close> (in either
  version) returns the error "Server error: " followed by the status text. The response
  value is the one passed in, and the trace has gained the call of the transport and
  nothing else: the body is neither read nor copied, and the result depends neither on
  the body nor on the codec.
\<close>

theorem httpRequest_status_short_circuit:
  assumes "StatusCode resp \<noteq> 200"
  shows "(newRequest parses enc w path params q = Some request
          \<and> HTTPClient c request = Inr resp \<longrightarrow>
            httpRequest parses enc J U c path params q r w
              = (Returns (Some (errors_New (''Server error: '' @ Status resp))), r,
                 w\<lparr>trace := trace w @ [Do request]\<rparr>))
       \<and> (newRequest_query parses w path params = Some request
          \<and> HTTPClient c request = Inr resp \<longrightarrow>
            httpRequest_query parses J U c path params q' r w
              = (Returns (Some (errors_New (''Server error: '' @ Status resp))), r,
                 w\<lparr>trace := trace w @ [Do request]\<rparr>))"
  using assms
  by (simp add: httpRequest_def httpRequest_query_def Let_def emit_def)

theorem httpRequest_status_short_circuit_witness:
  \<open>StatusCode resp_500 \<noteq> 200
   \<and> Unmarshal json_double (Body resp_500) zero_AccessTokenResponse = (None, res_TOK)
   \<and> httpRequest parses_double enc_double json_double OAPIResponse_Unmarshallable
          (client_K (answer resp_500)) ''/lapp/token/get'' None
          (Some [''appkey'' \<mapsto> ''K'', ''appsecret'' \<mapsto> ''S'']) zero_AccessTokenResponse world0
     = (Returns (Some (errors_New ''Server error: 500 Internal Server Error'')),
        zero_AccessTokenResponse,
        world0\<lparr>trace :=
          [Do \<lparr>Method = ''POST'', URL = ''https://open.ys7.com/api//lapp/token/get?'',
               Query = Map.empty, ContentType = Some ''application/json'',
               ReqBody = Some ''{"appkey":"K","appsecret":"S"}''\<rparr>]\<rparr>)
   \<and> httpRequest_query parses_double json_double OAPIResponse_Unmarshallable
          (client_K (answer resp_500)) ''/lapp/token/get''
          (Some [''appKey'' \<mapsto> [''K''], ''appSecret'' \<mapsto> [''S'']])
          (None :: unit option) zero_AccessTokenResponse world0
     = (Returns (Some (errors_New ''Server error: 500 Internal Server Error'')),
        zero_AccessTokenResponse,
        world0\<lparr>trace :=
          [Do \<lparr>Method = ''POST'', URL = ''https://open.ys7.com/api//lapp/token/get?'',
               Query = [''appKey'' \<mapsto> [''K''], ''appSecret'' \<mapsto> [''S'']],
               ContentType = None, ReqBody = None\<rparr>]\<rparr>)\<close>
proof -
  have s: "StatusCode resp_500 \<noteq> 200"
    by (simp add: resp_500_def)
  have u: "Unmarshal json_double (Body resp_500) zero_AccessTokenResponse = (None, res_TOK)"
    by (simp add: resp_500_def Unmarshal_doc_TOK)
  have t: "trace world0 = []" "Status resp_500 = ''500 Internal Server Error''"
    by (simp_all add: world0_def resp_500_def)
  note th = httpRequest_status_short_circuit [OF s, where c = "client_K (answer resp_500)"
      and J = json_double and U = OAPIResponse_Unmarshallable and r = zero_AccessTokenResponse
      and q' = "None :: unit option"]
  show ?thesis
    using s u
      th [THEN conjunct1, THEN mp, OF conjI, OF auth_request(1) HTTPClient_answer]
      th [THEN conjunct2, THEN mp, OF conjI, OF auth_request(2) HTTPClient_answer]
    by (simp add: t)
qed

text \<open>
  C9, as stated, at a concrete input. The transport answers with status 200, a
  \<open>Content-Type\<close> that begins with \<open>application/json\<close> and a body that does not decode,
  and reading the body returns an error. \<open>checkError\<close> of the response value, which is
  still the zero value, is the error ": ", and \<open>httpRequest\<close> (in either version) returns
  nil.
\<close>

theorem httpRequest_read_error_skips_checkError:
  "StatusCode (resp_broken ''<html>'') = 200
   \<and> isJSON (Header_ContentType (resp_broken ''<html>''))
   \<and> Unmarshal json_double (Body (resp_broken ''<html>'')) zero_AccessTokenResponse
       = (Some (Foreign ''invalid character''), zero_AccessTokenResponse)
   \<and> checkError OAPIResponse_Unmarshallable zero_AccessTokenResponse
       = Some (errors_New '': '')
   \<and> fst (httpRequest parses_double enc_double json_double OAPIResponse_Unmarshallable
          (client_K (answer (resp_broken ''<html>''))) ''/lapp/token/get'' None
          (Some [''appkey'' \<mapsto> ''K'', ''appsecret'' \<mapsto> ''S'']) zero_AccessTokenResponse world0)
     = Returns None
   \<and> fst (httpRequest_query parses_double json_double OAPIResponse_Unmarshallable
          (client_K (answer (resp_broken ''<html>''))) ''/lapp/token/get'' None
          (None :: unit option) zero_AccessTokenResponse world0)
     = Returns None"
proof -
  have u: "Unmarshal json_double (Body (resp_broken ''<html>'')) zero_AccessTokenResponse
       = (Some (Foreign ''invalid character''), zero_AccessTokenResponse)"
    by (simp add: resp_broken_simps json_double_def doc_TOK_def doc_5000_def doc_coerced_def
        doc_400_def doc_ok_def)
  have k: "checkError OAPIResponse_Unmarshallable zero_AccessTokenResponse
             = Some (errors_New '': '')"
    by (simp add: OAPIResponse_Unmarshallable_def OAPIResponse_checkError_def
        zero_AccessTokenResponse_def)
  show ?thesis
    using u k resp_broken_simps(1,2) [of "''<html>''"]
      httpRequest_read_error(1) [OF HTTPClient_answer resp_broken_simps(1-3) some_request(1),
        where J = json_double and U = OAPIResponse_Unmarshallable
        and r = zero_AccessTokenResponse and doc1 = "''<html>''"]
      httpRequest_read_error(2) [OF HTTPClient_answer resp_broken_simps(1-3) some_request(2),
        where J = json_double and U = OAPIResponse_Unmarshallable
        and r = zero_AccessTokenResponse and doc1 = "''<html>''" and q' = "None :: unit option"]
    by simp
qed

text \<open>
  C9, amended. Let the transport answer with status 200 and a \<open>Content-Type\<close> that begins
  with \<open>application/json\<close>, let the body be read to its end without error, and let
  \<open>json.Unmarshal\<close> return an error. Then \<open>httpRequest\<close> (in either version) returns
  \<open>checkError\<close> of the value as \<open>json.Unmarshal\<close> left it, and hands that value back; the
  error of the decoder appears nowhere in the result.
\<close>

theorem httpRequest_decode_error_ignored:
  assumes "StatusCode resp = 200"
    and "isJSON (Header_ContentType resp)"
    and "BodyErr resp = None"
    and "Unmarshal J (Body resp) r = (Some e, r')"
  shows "(newRequest parses enc w path params q = Some request
          \<and> HTTPClient c request = Inr resp \<longrightarrow>
            fst (httpRequest parses enc J U c path params q r w) = Returns (checkError U r')
          \<and> fst (snd (httpRequest parses enc J U c path params q r w)) = r')
       \<and> (newRequest_query parses w path params = Some request
          \<and> HTTPClient c request = Inr resp \<longrightarrow>
            fst (httpRequest_query parses J U c path params q' r w) = Returns (checkError U r')
          \<and> fst (snd (httpRequest_query parses J U c path params q' r w)) = r')"
  using assms
  by (simp add: httpRequest_def httpRequest_query_def Let_def)

theorem httpRequest_decode_error_ignored_witness:
  "Unmarshal json_double (Body (resp_json ''<html>'')) zero_AccessTokenResponse
     = (Some (Foreign ''invalid character''), zero_AccessTokenResponse)
   \<and> fst (httpRequest parses_double enc_double json_double OAPIResponse_Unmarshallable
          (client_K (answer (resp_json ''<html>''))) ''/lapp/token/get'' None
          (Some [''appkey'' \<mapsto> ''K'', ''appsecret'' \<mapsto> ''S'']) zero_AccessTokenResponse world0)
     = Returns (Some (errors_New '': ''))
   \<and> fst (httpRequest_query parses_double json_double OAPIResponse_Unmarshallable
          (client_K (answer (resp_json ''<html>''))) ''/lapp/token/get'' None
          (None :: unit option) zero_AccessTokenResponse world0)
     = Returns (Some (errors_New '': ''))
   \<and> Unmarshal json_double (Body (resp_json ''<html>'')) res_5000
     = (Some (Foreign ''invalid character''), res_5000)
   \<and> fst (httpRequest parses_double enc_double json_double OAPIResponse_Unmarshallable
          (client_K (answer (resp_json ''<html>''))) ''/lapp/token/get'' None
          (Some [''appkey'' \<mapsto> ''K'', ''appsecret'' \<mapsto> ''S'']) res_5000 world0)
     = Returns None
   \<and> fst (httpRequest_query parses_double json_double OAPIResponse_Unmarshallable
          (client_K (answer (resp_json ''<html>''))) ''/lapp/token/get'' None
          (None :: unit option) res_5000 world0)
     = Returns None"
proof -
  have u: "Unmarshal json_double (Body (resp_json ''<html>'')) r
             = (Some (Foreign ''invalid character''), r)" for r
    by (simp add: resp_json_simps json_double_def doc_TOK_def doc_5000_def doc_coerced_def
        doc_400_def doc_ok_def)
  have k: "checkError OAPIResponse_Unmarshallable zero_AccessTokenResponse
             = Some (errors_New '': '')"
    "checkError OAPIResponse_Unmarshallable res_5000 = None"
    by (simp_all add: OAPIResponse_Unmarshallable_def OAPIResponse_checkError_def
        zero_AccessTokenResponse_def res_5000_def)
  note tz = httpRequest_decode_error_ignored [OF resp_json_simps(1-3) u [of zero_AccessTokenResponse],
        where c = "client_K (answer (resp_json ''<html>''))" and U = OAPIResponse_Unmarshallable
        and q' = "None :: unit option"]
  note ts = httpRequest_decode_error_ignored [OF resp_json_simps(1-3) u [of res_5000],
        where c = "client_K (answer (resp_json ''<html>''))" and U = OAPIResponse_Unmarshallable
        and q' = "None :: unit option"]
  show ?thesis
    using u [of zero_AccessTokenResponse] u [of res_5000]
      tz [THEN conjunct1, THEN mp, OF conjI, OF some_request(1) HTTPClient_answer]
      tz [THEN conjunct2, THEN mp, OF conjI, OF some_request(2) HTTPClient_answer]
      ts [THEN conjunct1, THEN mp, OF conjI, OF some_request(1) HTTPClient_answer]
      ts [THEN conjunct2, THEN mp, OF conjI, OF some_request(2) HTTPClient_answer]
    by (simp add: k)
qed

text \<open>
  C10. Let the transport answer with status 200 and a \<open>Content-Type\<close> that does not begin
  with \<open>application/json\<close>. Then \<open>httpRequest\<close> (in either version) copies the body to
  the writer that \<open>getWriter\<close> of the response shape returns and then returns
  \<open>checkError\<close> of the shape. \<open>getWriter\<close> of \<open>OAPIResponse\<close> returns nil. With a nil
  writer the copy dereferences nil at the first byte of the body: the call panics
  exactly when the writer is nil and the body is not empty, so it is safe for every body
  only when the shape supplies a writer.
\<close>

theorem httpRequest_copy_to_writer:
  assumes "StatusCode resp = 200"
    and "\<not> isJSON (Header_ContentType resp)"
  shows "OAPIResponse_getWriter d = None
       \<and> (newRequest parses enc w path params q = Some request
          \<and> HTTPClient c request = Inr resp \<longrightarrow>
            httpRequest parses enc J U c path params q r w
              = (case getWriter U r of
                   Some wr \<Rightarrow> (Returns (checkError U (wr (Body resp))), wr (Body resp),
                      w\<lparr>trace := trace w @ [Do request, Copy, Close]\<rparr>)
                 | None \<Rightarrow> (if Body resp = [] then Returns (checkError U r) else Panics, r,
                      w\<lparr>trace := trace w @ [Do request, Copy, Close]\<rparr>))
          \<and> (fst (httpRequest parses enc J U c path params q r w) = Panics)
              = (getWriter U r = None \<and> Body resp \<noteq> []))
       \<and> (newRequest_query parses w path params = Some request
          \<and> HTTPClient c request = Inr resp \<longrightarrow>
            httpRequest_query parses J U c path params q' r w
              = (case getWriter U r of
                   Some wr \<Rightarrow> (Returns (checkError U (wr (Body resp))), wr (Body resp),
                      w\<lparr>trace := trace w @ [Do request, Copy, Close]\<rparr>)
                 | None \<Rightarrow> (if Body resp = [] then Returns (checkError U r) else Panics, r,
                      w\<lparr>trace := trace w @ [Do request, Copy, Close]\<rparr>))
          \<and> (fst (httpRequest_query parses J U c path params q' r w) = Panics)
              = (getWriter U r = None \<and> Body resp \<noteq> []))"
  using assms
  by (simp add: httpRequest_def httpRequest_query_def Let_def emit_def io_Copy_def
      OAPIResponse_getWriter_def split: option.splits)

theorem httpRequest_copy_to_writer_witness:
  \<open>getWriter OAPIResponse_Unmarshallable zero_AccessTokenResponse = None
   \<and> fst (httpRequest parses_double enc_double json_double OAPIResponse_Unmarshallable
          (client_K (answer (resp_jpeg ''JFIF''))) ''/lapp/token/get'' None
          (Some [''appkey'' \<mapsto> ''K'', ''appsecret'' \<mapsto> ''S'']) zero_AccessTokenResponse world0)
     = Panics
   \<and> fst (httpRequest_query parses_double json_double OAPIResponse_Unmarshallable
          (client_K (answer (resp_jpeg ''JFIF''))) ''/lapp/token/get''
          (Some [''appKey'' \<mapsto> [''K''], ''appSecret'' \<mapsto> [''S'']])
          (None :: unit option) zero_AccessTokenResponse world0)
     = Panics
   \<and> httpRequest parses_double enc_double Buffer_json Buffer_Unmarshallable
          (client_K (answer (resp_jpeg ''JFIF''))) ''/lapp/token/get'' None
          (Some [''appkey'' \<mapsto> ''K'', ''appsecret'' \<mapsto> ''S'']) [] world0
     = (Returns None, ''JFIF'',
        world0\<lparr>trace :=
          [Do \<lparr>Method = ''POST'', URL = ''https://open.ys7.com/api//lapp/token/get?'',
               Query = Map.empty, ContentType = Some ''application/json'',
               ReqBody = Some ''{"appkey":"K","appsecret":"S"}''\<rparr>, Copy, Close]\<rparr>)
   \<and> httpRequest_query parses_double Buffer_json Buffer_Unmarshallable
          (client_K (answer (resp_jpeg ''JFIF''))) ''/lapp/token/get''
          (Some [''appKey'' \<mapsto> [''K''], ''appSecret'' \<mapsto> [''S'']])
          (None :: unit option) [] world0
     = (Returns None, ''JFIF'',
        world0\<lparr>trace :=
          [Do \<lparr>Method = ''POST'', URL = ''https://open.ys7.com/api//lapp/token/get?'',
               Query = [''appKey'' \<mapsto> [''K''], ''appSecret'' \<mapsto> [''S'']],
               ContentType = None, ReqBody = None\<rparr>, Copy, Close]\<rparr>)\<close>
proof -
  have g: "getWriter OAPIResponse_Unmarshallable zero_AccessTokenResponse = None"
    by (simp add: OAPIResponse_Unmarshallable_def OAPIResponse_getWriter_def)
  have b: "getWriter Buffer_Unmarshallable [] = Some (\<lambda>bs. bs)"
    "checkError Buffer_Unmarshallable ''JFIF'' = None"
    by (simp_all add: Buffer_Unmarshallable_def fun_eq_iff)
  have t: "trace world0 = []"
    by (simp add: world0_def)
  note tn = httpRequest_copy_to_writer [OF resp_jpeg_simps(1) [of "''JFIF''"]
          resp_jpeg_simps(2) [of "''JFIF''"],
        where c = "client_K (answer (resp_jpeg ''JFIF''))"
        and J = json_double and U = OAPIResponse_Unmarshallable and r = zero_AccessTokenResponse
        and q' = "None :: unit option" and d = zero_AccessTokenResponse]
  note tb = httpRequest_copy_to_writer [OF resp_jpeg_simps(1) [of "''JFIF''"]
          resp_jpeg_simps(2) [of "''JFIF''"],
        where c = "client_K (answer (resp_jpeg ''JFIF''))"
        and J = Buffer_json and U = Buffer_Unmarshallable and r = "[]"
        and q' = "None :: unit option" and d = zero_AccessTokenResponse]
  show ?thesis
    using g
      tn [THEN conjunct2, THEN conjunct1, THEN mp, OF conjI, OF auth_request(1) HTTPClient_answer]
      tn [THEN conjunct2, THEN conjunct2, THEN mp, OF conjI, OF auth_request(2) HTTPClient_answer]
      tb [THEN conjunct2, THEN conjunct1, THEN mp, OF conjI, OF auth_request(1) HTTPClient_answer]
      tb [THEN conjunct2, THEN conjunct2, THEN mp, OF conjI, OF auth_request(2) HTTPClient_answer]
    by (simp add: resp_jpeg_simps(3) b t)
qed

text \<open>
  C7, as stated, at a concrete input. The client holds the token "T" and the caller's
  parameters have an \<open>accessToken\<close> entry, with the empty string as its value. The request
  that reaches the transport carries \<open>accessToken = T\<close>: the caller's entry has been
  replaced, in both versions.
\<close>

theorem httpRPC_replaces_empty_entry:
  "blank_token_params ''accessToken'' = Some [[]]
   \<and> EzvizClient.AccessToken client_T = ''T''
   \<and> map (query_of ''accessToken'')
        (sent (trace (snd (snd (httpRPC parses_double enc_double json_double
           OAPIResponse_Unmarshallable client_T ''/lapp/device/list'' (Some blank_token_params)
           (None :: (string \<rightharpoonup> string) option) zero_AccessTokenResponse world0)))))
     = [Some [''T'']]
   \<and> map (query_of ''accessToken'')
        (sent (trace (snd (snd (httpRPC_query parses_double json_double
           OAPIResponse_Unmarshallable client_T ''/lapp/device/list'' (Some blank_token_params)
           (None :: unit option) zero_AccessTokenResponse world0)))))
     = [Some [''T'']]"
  by (simp add: dispatch_defs query_of_def client_T_def blank_token_params_def client_K_simps
      unreachable_def world0_def parses_double_def)

text \<open>
  C7, amended. \<open>httpRPC\<close> (in either version) sets the query parameter \<open>accessToken\<close> to
  the client's token, as its only value, exactly when the client's token is not empty
  and \<open>Get("accessToken")\<close> on the caller's parameters is empty (there is no such entry,
  or it has no value, or its first value is the empty string; nil parameters count as
  having no entry). In every other case the caller's parameters go to \<open>httpRequest\<close> as
  they are.
\<close>

theorem httpRPC_token_injection:
  "httpRPC parses enc J U c path params q r w
     = httpRequest parses enc J U c path
         (if EzvizClient.AccessToken c \<noteq> [] \<and> Values_Get (Encode params) ''accessToken'' = []
          then Some ((Encode params)(''accessToken'' \<mapsto> [EzvizClient.AccessToken c]))
          else params) q r w
   \<and> httpRPC_query parses J U c path params q' r w
     = httpRequest_query parses J U c path
         (if EzvizClient.AccessToken c \<noteq> [] \<and> Values_Get (Encode params) ''accessToken'' = []
          then Some ((Encode params)(''accessToken'' \<mapsto> [EzvizClient.AccessToken c]))
          else params) q' r w"
  by (cases params)
    (simp_all add: httpRPC_def httpRPC_query_def Let_def Encode_def Values_Set_def Values_Get_def)

theorem httpRPC_token_injection_witness:
  "httpRPC parses_double enc_double json_double OAPIResponse_Unmarshallable
      client_T ''/lapp/device/list''
      None (None :: (string \<rightharpoonup> string) option) zero_AccessTokenResponse world0
     = httpRequest parses_double enc_double json_double OAPIResponse_Unmarshallable
      client_T ''/lapp/device/list''
      (Some [''accessToken'' \<mapsto> [''T'']]) None zero_AccessTokenResponse world0
   \<and> httpRPC_query parses_double json_double OAPIResponse_Unmarshallable
      client_T ''/lapp/device/list''
      (Some [''accessToken'' \<mapsto> [''U'']]) (None :: unit option) zero_AccessTokenResponse world0
     = httpRequest_query parses_double json_double OAPIResponse_Unmarshallable
      client_T ''/lapp/device/list''
      (Some [''accessToken'' \<mapsto> [''U'']]) (None :: unit option) zero_AccessTokenResponse world0
   \<and> httpRPC parses_double enc_double json_double OAPIResponse_Unmarshallable
      (client_K unreachable) ''/lapp/device/list''
      None (None :: (string \<rightharpoonup> string) option) zero_AccessTokenResponse world0
     = httpRequest parses_double enc_double json_double OAPIResponse_Unmarshallable
      (client_K unreachable) ''/lapp/device/list''
      None None zero_AccessTokenResponse world0"
  using
    httpRPC_token_injection [where c = client_T and parses = parses_double
      and enc = enc_double and J = json_double and U = OAPIResponse_Unmarshallable
      and path = "''/lapp/device/list''" and params = None
      and q = "None :: (string \<rightharpoonup> string) option" and q' = "None :: unit option"
      and r = zero_AccessTokenResponse and w = world0]
    httpRPC_token_injection [where c = client_T and parses = parses_double
      and enc = enc_double and J = json_double and U = OAPIResponse_Unmarshallable
      and path = "''/lapp/device/list''" and params = "Some [''accessToken'' \<mapsto> [''U'']]"
      and q = "None :: (string \<rightharpoonup> string) option" and q' = "None :: unit option"
      and r = zero_AccessTokenResponse and w = world0]
    httpRPC_token_injection [where c = "client_K unreachable" and parses = parses_double
      and enc = enc_double and J = json_double and U = OAPIResponse_Unmarshallable
      and path = "''/lapp/device/list''" and params = None
      and q = "None :: (string \<rightharpoonup> string) option" and q' = "None :: unit option"
      and r = zero_AccessTokenResponse and w = world0]
  by (simp add: Encode_def Values_Get_def client_K_simps client_T_def)


end
